theory Spec2Isabelle
  imports Complex_Main "HOL-Library.AList"
begin

section \<open>Python values\<close>

text \<open>
  The raw configuration is a \<^verbatim>\<open>Dict[str, Any]\<close> read from a JSON file, so a value is
  any JSON value as Python holds it. A float is the rational it denotes (every finite
  double is one), or one of the three special values.
\<close>

datatype pyfloat = Fin rat | PosInf | NegInf | NaN

datatype pyval =
    PNone
  | PBool bool
  | PInt int
  | PFloat pyfloat
  | PStr string
  | PList "pyval list"
  | PDict "(string \<times> pyval) list"

text \<open>
  A Python dict keeps its items in insertion order and has each key once. It is an
  association list; \<open>d[k] = v\<close> replaces the value of a key already there and appends a
  new key at the end, which is \<^const>\<open>AList.update\<close>.
\<close>

type_synonym 'v dict = "(string \<times> 'v) list"

definition dict_setitem :: "'v dict \<Rightarrow> string \<Rightarrow> 'v \<Rightarrow> 'v dict" where
  "dict_setitem d k v = AList.update k v d"

definition dict_keys :: "'v dict \<Rightarrow> string set" where
  "dict_keys d = fst ` set d"

text \<open>
  \<open>v == i\<close> for an integer literal \<open>i\<close>: Python compares numbers by value across
  \<open>bool\<close>, \<open>int\<close> and \<open>float\<close>; a value of any other type is unequal to a number.
\<close>

fun py_eq_int :: "pyval \<Rightarrow> int \<Rightarrow> bool" where
  "py_eq_int (PInt n) i = (n = i)"
| "py_eq_int (PBool b) i = ((if b then 1 else 0) = i)"
| "py_eq_int (PFloat (Fin r)) i = (r = of_int i)"
| "py_eq_int _ i = False"

text \<open>\<open>v == s\<close> for a string literal \<open>s\<close>: only a string equals a string.\<close>

fun py_eq_str :: "pyval \<Rightarrow> string \<Rightarrow> bool" where
  "py_eq_str (PStr t) s = (t = s)"
| "py_eq_str _ s = False"

text \<open>\<open>v in [s1, ..., sn]\<close> for a list of string literals.\<close>

definition py_in_strs :: "pyval \<Rightarrow> string list \<Rightarrow> bool" where
  "py_in_strs v ss = list_ex (py_eq_str v) ss"

section \<open>Errors and output\<close>

text \<open>
  Every exception the modelled code can raise. The two \<open>ValueError\<close>s of
  \<open>SmoothQuantConfig.__init__\<close> differ in their message only; they are told apart here
  under the names the specification gives them.
  \<^item> \<open>UnsupportedBitWidth v\<close>: \<open>ValueError("Currently, only w8a8 quantization is
    supported for SmoothQuant, but got {v} bits.")\<close>
  \<^item> \<open>EmptyQuantizationMap\<close>: \<open>ValueError('Quant_map for SmoothQuant should not be
    None or an empty dict. ...')\<close>
  \<^item> \<open>MissingBitWidthKey\<close>: the \<open>ValueError\<close> of \<open>get_from_keys\<close> when no key is found
  \<^item> \<open>UnsupportedBias\<close>: the \<open>AssertionError\<close> of \<open>assert bias is None\<close>
  \<^item> \<open>KeyError k\<close>: \<open>weights["weight"]\<close> on a dict without that key
  \<^item> \<open>AttributeError a\<close>: reading an attribute that was never set
  \<^item> \<open>IndexError\<close>: \<open>shape[-1]\<close> or \<open>shape[0]\<close> of a tensor without dimensions
  \<^item> \<open>ViewError e\<close>: the \<open>RuntimeError\<close> of \<open>Tensor.view\<close>
  \<^item> \<open>OutsideKernelContract\<close>: the kernel was called on arguments its contract does
    not cover
\<close>

datatype view_error =
    OnlyOneDimInferred
  | InvalidShapeDimension int
  | AmbiguousInferredDim
  | ShapeInvalidForSize
  | NotCompatibleWithStride

datatype error =
    UnsupportedBitWidth pyval
  | EmptyQuantizationMap
  | MissingBitWidthKey
  | UnsupportedBias
  | KeyError string
  | AttributeError string
  | IndexError
  | ViewError view_error
  | OutsideKernelContract

fun is_ValueError :: "error \<Rightarrow> bool" where
  "is_ValueError (UnsupportedBitWidth v) = True"
| "is_ValueError EmptyQuantizationMap = True"
| "is_ValueError MissingBitWidthKey = True"
| "is_ValueError _ = False"

text \<open>
  What \<open>print\<close> wrote: \<open>print(str(e) + " Set weight_bits = 8 by default.")\<close> is the
  only call, recorded with the exception whose message it prints.
\<close>

datatype printed = DefaultWeightBitsWarning error

section \<open>SmoothQuantConfig\<close>

record SmoothQuantConfig =
  weight_bits :: pyval
  quant_map :: "pyval dict option"

text \<open>
  \<open>SmoothQuantConfig.__init__(self, weight_bits=8, quant_map=None)\<close>: the two fields
  are stored, then the two checks run in the order of the source.
\<close>

definition SmoothQuantConfig_init ::
  "pyval \<Rightarrow> pyval dict option \<Rightarrow> error + SmoothQuantConfig" where
  "SmoothQuantConfig_init wb qm =
     (if \<not> py_eq_int wb 8 then Inl (UnsupportedBitWidth wb)
      else if qm = None \<or> qm = Some [] then Inl EmptyQuantizationMap
      else Inr \<lparr>weight_bits = wb, quant_map = qm\<rparr>)"

text \<open>
  Modelled from the spec: \<open>QuantizationConfig.get_from_keys\<close> of
  \<open>aphrodite/modeling/layers/quantization/base_config.py\<close> is not among the sources.
  The specification has \<open>from_config\<close> look the bit width up "under either key w_bit or
  bits, preferring whichever is present", and fall back when "neither is present": the
  keys are tried in the order of the list the caller passes, the value of the first one
  present is returned, and a \<open>ValueError\<close> is raised when none is.
\<close>

fun get_from_keys :: "pyval dict \<Rightarrow> string list \<Rightarrow> error + pyval" where
  "get_from_keys config [] = Inl MissingBitWidthKey"
| "get_from_keys config (k # ks) =
     (case map_of config k of
        Some v \<Rightarrow> Inr v
      | None \<Rightarrow> get_from_keys config ks)"

text \<open>
  The loop of \<open>from_config\<close> over \<open>config.items()\<close>, with \<open>quant_map\<close> as the
  accumulator.
\<close>

fun from_config_items :: "(string \<times> pyval) list \<Rightarrow> pyval dict \<Rightarrow> pyval dict" where
  "from_config_items [] qm = qm"
| "from_config_items ((key, val) # items) qm =
     from_config_items items
       (if py_in_strs val [''per-tensor'', ''per-token''] then dict_setitem qm key val
        else qm)"

text \<open>
  \<open>SmoothQuantConfig.from_config\<close>. The result is what was printed and what the call
  returned or raised. \<open>except ValueError\<close> catches a \<open>ValueError\<close> only.
\<close>

definition from_config :: "pyval dict \<Rightarrow> printed list \<times> (error + SmoothQuantConfig)" where
  "from_config config =
     (case get_from_keys config [''w_bit'', ''bits''] of
        Inr wb \<Rightarrow>
          ([], SmoothQuantConfig_init wb (Some (from_config_items config [])))
      | Inl e \<Rightarrow>
          if is_ValueError e
          then ([DefaultWeightBitsWarning e],
                SmoothQuantConfig_init (PInt 8) (Some (from_config_items config [])))
          else ([], Inl e))"

text \<open>
  The reference definition of \<open>FromRawConfig\<close>, in the words of the specification: the
  bit width is the value under \<open>"w_bit"\<close> or \<open>"bits"\<close>, 8 with a warning when neither
  is present; the map retains the pairs whose value is exactly the string
  \<open>"per-tensor"\<close> or \<open>"per-token"\<close>.
\<close>

definition spec_bit_width :: "pyval dict \<Rightarrow> pyval" where
  "spec_bit_width config =
     (case map_of config ''w_bit'' of
        Some v \<Rightarrow> v
      | None \<Rightarrow> (case map_of config ''bits'' of Some v \<Rightarrow> v | None \<Rightarrow> PInt 8))"

definition spec_warnings :: "pyval dict \<Rightarrow> printed list" where
  "spec_warnings config =
     (if map_of config ''w_bit'' = None \<and> map_of config ''bits'' = None
      then [DefaultWeightBitsWarning MissingBitWidthKey] else [])"

definition is_granularity :: "string \<times> pyval \<Rightarrow> bool" where
  "is_granularity kv = (snd kv = PStr ''per-tensor'' \<or> snd kv = PStr ''per-token'')"

definition spec_quant_map :: "pyval dict \<Rightarrow> pyval dict" where
  "spec_quant_map config = filter is_granularity config"

definition FromRawConfig_spec :: "pyval dict \<Rightarrow> printed list \<times> (error + SmoothQuantConfig)" where
  "FromRawConfig_spec config =
     (spec_warnings config,
      SmoothQuantConfig_init (spec_bit_width config) (Some (spec_quant_map config)))"

section \<open>Tensors and the tensor runtime\<close>

datatype dtype =
    Bool | UInt8 | Int8 | Int16 | Int32 | Int64 | Float16 | BFloat16 | Float32 | Float64

datatype device = CPU | CUDA nat

text \<open>
  The memory a tensor's data pointer addresses. \<open>torch.empty\<close> returns memory that was
  never written: \<open>Uninitialized\<close>. An integer element is the integer it denotes, a
  float element the rational it denotes.
\<close>

datatype storage = Uninitialized | Ints "int list" | Floats "rat list"

text \<open>
  A tensor: its sizes (dimension counts, natural numbers), its strides, element type,
  device, gradient flag, the Python attributes attached to the object, and its memory.
  The element at a multi-index is the one at position \<open>offset\<close> of the memory: the sum
  of the indices, each times the stride of its dimension.
\<close>

record tensor =
  shape :: "nat list"
  stride :: "nat list"
  dtype :: dtype
  device :: device
  requires_grad :: bool
  attrs :: "int dict"
  storage :: storage

type_synonym handle = nat

text \<open>
  What the code does to the world outside its return values: the tensors it allocates
  and the calls it makes into the native kernel, both oldest first. \<open>current_cuda\<close> is
  the index of the CUDA device that \<open>device="cuda"\<close> names.
\<close>

record runtime =
  current_cuda :: nat
  allocations :: "(nat list \<times> dtype \<times> device) list"
  kernel_calls :: "(handle \<times> nat list \<times> nat list \<times> nat list) list"

definition numel :: "tensor \<Rightarrow> nat" where
  "numel t = prod_list (shape t)"

definition offset :: "nat list \<Rightarrow> nat list \<Rightarrow> nat" where
  "offset strides ix = sum_list (map2 (\<lambda>i s. i * s) ix strides)"

text \<open>The multi-indices that are in range for the given sizes.\<close>

definition valid_index :: "nat list \<Rightarrow> nat list \<Rightarrow> bool" where
  "valid_index sizes ix = list_all2 (\<lambda>i d. i < d) ix sizes"

text \<open>
  The strides of a freshly allocated tensor, row-major: the stride of a dimension is the
  product of the sizes of the dimensions after it, a size 0 counting as 1.
\<close>

fun contiguous_strides :: "nat list \<Rightarrow> nat list" where
  "contiguous_strides [] = []"
| "contiguous_strides (d # ds) = prod_list (map (max 1) ds) # contiguous_strides ds"

text \<open>
  \<open>Tensor.is_contiguous()\<close>: a tensor without elements is contiguous; otherwise the
  dimensions are scanned from the last to the first, and each one of a size other than 1
  must have as its stride the product of the sizes scanned before it.
\<close>

fun contiguous_scan :: "(nat \<times> nat) list \<Rightarrow> nat \<Rightarrow> bool" where
  "contiguous_scan [] z = True"
| "contiguous_scan ((size_d, stride_d) # rest) z =
     (if size_d \<noteq> 1 then
        (if stride_d = z then contiguous_scan rest (z * size_d) else False)
      else contiguous_scan rest z)"

definition is_contiguous :: "tensor \<Rightarrow> bool" where
  "is_contiguous t = (numel t = 0 \<or> contiguous_scan (rev (zip (shape t) (stride t))) 1)"

text \<open>\<open>torch.empty(*sizes, dtype=dt, device=dev)\<close>\<close>

definition torch_empty :: "nat list \<Rightarrow> dtype \<Rightarrow> device \<Rightarrow> runtime \<Rightarrow> tensor \<times> runtime" where
  "torch_empty sizes dt dev rt =
     (\<lparr>shape = sizes, stride = contiguous_strides sizes, dtype = dt, device = dev,
        requires_grad = False, attrs = [], storage = Uninitialized\<rparr>,
      rt\<lparr>allocations := allocations rt @ [(sizes, dt, dev)]\<rparr>)"

text \<open>\<open>torch.tensor(v, dtype=dt, device=dev)\<close> for a Python float \<open>v\<close>: a scalar tensor.\<close>

definition torch_tensor :: "rat \<Rightarrow> dtype \<Rightarrow> device \<Rightarrow> runtime \<Rightarrow> tensor \<times> runtime" where
  "torch_tensor v dt dev rt =
     (\<lparr>shape = [], stride = [], dtype = dt, device = dev, requires_grad = False,
        attrs = [], storage = Floats [v]\<rparr>,
      rt\<lparr>allocations := allocations rt @ [([], dt, dev)]\<rparr>)"

text \<open>\<open>Parameter(t, requires_grad=g)\<close>\<close>

definition Parameter :: "tensor \<Rightarrow> bool \<Rightarrow> tensor" where
  "Parameter t g = t\<lparr>requires_grad := g\<rparr>"

text \<open>
  Modelled from the spec: \<open>set_weight_attrs\<close> of \<open>aphrodite/modeling/layers/linear.py\<close>
  is not among the sources. The specification has it tag "the weight tensor's axis
  roles" through "side-channel attributes" of the tensor: each key of the dict becomes
  an attribute of the tensor, holding the dict's value.
\<close>

definition set_weight_attrs :: "tensor \<Rightarrow> int dict \<Rightarrow> tensor" where
  "set_weight_attrs weight weight_attrs =
     weight\<lparr>attrs := fold (\<lambda>kv a. dict_setitem a (fst kv) (snd kv)) weight_attrs (attrs weight)\<rparr>"

text \<open>
  \<open>Tensor.view(*sizes)\<close>, with at most one size given as \<open>-1\<close> and inferred from the
  number of elements. \<open>infer_scan\<close> is the loop over the requested sizes (the index of
  the size to infer, and the product of the others), \<open>infer_size\<close> the decision that
  follows it: the sizes must account for every element, and a \<open>-1\<close> beside a size 0
  stands for no particular number, which is an error.
\<close>

fun infer_scan ::
  "int list \<Rightarrow> nat \<Rightarrow> nat option \<Rightarrow> nat \<Rightarrow> error + (nat option \<times> nat)" where
  "infer_scan [] i infer_dim newsize = Inr (infer_dim, newsize)"
| "infer_scan (d # ds) i infer_dim newsize =
     (if d = - 1 then
        (if infer_dim \<noteq> None then Inl (ViewError OnlyOneDimInferred)
         else infer_scan ds (Suc i) (Some i) newsize)
      else if 0 \<le> d then infer_scan ds (Suc i) infer_dim (newsize * nat d)
      else Inl (ViewError (InvalidShapeDimension d)))"

definition infer_size :: "int list \<Rightarrow> nat \<Rightarrow> error + nat list" where
  "infer_size sizes n =
     (case infer_scan sizes 0 None 1 of
        Inl e \<Rightarrow> Inl e
      | Inr (infer_dim, newsize) \<Rightarrow>
          if n = newsize \<or> (infer_dim \<noteq> None \<and> 0 < newsize \<and> n mod newsize = 0) then
            (case infer_dim of
               None \<Rightarrow> Inr (map nat sizes)
             | Some i \<Rightarrow>
                 if newsize = 0 then Inl (ViewError AmbiguousInferredDim)
                 else Inr ((map nat sizes)[i := n div newsize]))
          else Inl (ViewError ShapeInvalidForSize))"

text \<open>
  The strides of the view, when the memory can be read with the new sizes at all
  (\<open>computeStride\<close> of the tensor library). The dimensions of the tensor are scanned
  from the last to the first and gathered into chunks, a chunk being a run of dimensions
  that lie in memory as one row-major block; \<open>view_consume\<close> is the inner loop that
  gives the new dimensions, again from the last, their strides within the chunk, and a
  chunk must be covered by new dimensions exactly. Both loops run over reversed lists:
  the tensor's (size, stride) pairs, and the new sizes; the new strides are built from
  the last to the first.
\<close>

fun view_consume ::
  "nat list \<Rightarrow> nat list \<Rightarrow> nat \<Rightarrow> nat \<Rightarrow> nat \<Rightarrow> nat list \<times> nat list \<times> nat" where
  "view_consume [] newstride view_numel tensor_numel base = ([], newstride, view_numel)"
| "view_consume (v # vs) newstride view_numel tensor_numel base =
     (if view_numel < tensor_numel \<or> v = 1
      then view_consume vs ((view_numel * base) # newstride) (view_numel * v)
             tensor_numel base
      else (v # vs, newstride, view_numel))"

fun compute_chunks ::
  "(nat \<times> nat) list \<Rightarrow> nat list \<Rightarrow> nat list \<Rightarrow> nat \<Rightarrow> nat \<Rightarrow> nat \<Rightarrow> nat list option" where
  "compute_chunks [] vs newstride base tensor_numel view_numel =
     (if vs = [] then Some newstride else None)"
| "compute_chunks [(s, st)] vs newstride base tensor_numel view_numel =
     (case view_consume vs newstride view_numel (tensor_numel * s) base of
        (vs', newstride', view_numel') \<Rightarrow>
          if view_numel' \<noteq> tensor_numel * s then None
          else if vs' = [] then Some newstride' else None)"
| "compute_chunks ((s, st) # (s1, st1) # rest) vs newstride base tensor_numel view_numel =
     (if s1 \<noteq> 1 \<and> st1 \<noteq> tensor_numel * s * base then
        (case view_consume vs newstride view_numel (tensor_numel * s) base of
           (vs', newstride', view_numel') \<Rightarrow>
             if view_numel' \<noteq> tensor_numel * s then None
             else compute_chunks ((s1, st1) # rest) vs' newstride' st1 1 1)
      else compute_chunks ((s1, st1) # rest) vs newstride base (tensor_numel * s)
             view_numel)"

definition computeStride :: "nat list \<Rightarrow> nat list \<Rightarrow> nat list \<Rightarrow> nat list option" where
  "computeStride oldshape oldstride newshape =
     (if oldshape = [] then Some (replicate (length newshape) 1)
      else if prod_list oldshape = 0 then
        (if oldshape = newshape then Some oldstride
         else Some (contiguous_strides newshape))
      else compute_chunks (rev (zip oldshape oldstride)) (rev newshape) []
             (last oldstride) 1 1)"

text \<open>
  The view is a new tensor object over the same memory: it has the new sizes and
  strides, and none of the Python attributes set on the object it was taken from. When
  no strides fit, \<open>view\<close> raises ("view size is not compatible with input tensor's size
  and stride").
\<close>

definition view :: "tensor \<Rightarrow> int list \<Rightarrow> error + tensor" where
  "view t sizes =
     (case infer_size sizes (numel t) of
        Inl e \<Rightarrow> Inl e
      | Inr s \<Rightarrow>
          (case computeStride (shape t) (stride t) s of
             None \<Rightarrow> Inl (ViewError NotCompatibleWithStride)
           | Some st \<Rightarrow> Inr (t\<lparr>shape := s, stride := st, attrs := []\<rparr>)))"

text \<open>\<open>t.shape[-1]\<close> and \<open>t.shape[0]\<close>: an \<open>IndexError\<close> on a tensor without dimensions.\<close>

definition shape_last :: "tensor \<Rightarrow> error + nat" where
  "shape_last t = (if shape t = [] then Inl IndexError else Inr (last (shape t)))"

definition shape_first :: "tensor \<Rightarrow> error + nat" where
  "shape_first t = (case shape t of [] \<Rightarrow> Inl IndexError | d # ds \<Rightarrow> Inr d)"

section \<open>The native kernel\<close>

text \<open>
  The dot product of row \<open>i\<close> of \<open>x\<close> with row \<open>j\<close> of \<open>w\<close>, both matrices having \<open>k\<close>
  columns and lying row-major in memory; and the values an 8-bit and a 32-bit signed
  integer can hold.
\<close>

definition int8_range :: "int \<Rightarrow> bool" where
  "int8_range v = (- 128 \<le> v \<and> v \<le> 127)"

definition int32_range :: "int \<Rightarrow> bool" where
  "int32_range v = (- 2147483648 \<le> v \<and> v \<le> 2147483647)"

definition dot_rows :: "int list \<Rightarrow> int list \<Rightarrow> nat \<Rightarrow> nat \<Rightarrow> nat \<Rightarrow> int" where
  "dot_rows xs ws k i j = sum_list (map (\<lambda>c. xs ! (i * k + c) * ws ! (j * k + c)) [0..<k])"

text \<open>
  Modelled from the spec: the native kernel \<open>I8CUGEMM.linear_a8_w8_o32_\<close> of
  \<open>aphrodite._C.ops\<close> is not among the sources. Its contract in the specification:
  \<open>multiplyInt8(inputMatrix, weightMatrix, outputMatrix)\<close> populates the output matrix
  in place with \<open>output[i, j] = \<Sum>k. input[i, k] * weight[j, k]\<close>, for an input of
  shape \<open>[b, k]\<close> and a weight of shape \<open>[n, k]\<close>, both of 8-bit signed integers in
  \<open>[-128, 127]\<close>, and an int32 output of shape \<open>[b, n]\<close>, the sums being "accumulated
  without overflow in 32-bit signed arithmetic", which is the caller's responsibility.
  The contract speaks of matrices: it is taken to cover three contiguous tensors. On
  any other arguments (a sum that does not fit 32 bits among them) the specification
  says nothing, and the model answers \<open>OutsideKernelContract\<close>: no answer, not an
  exception that the kernel is known to raise. The call is logged either way. (A
  constant's name cannot end in an underscore here, so the method's last character is
  dropped.)
\<close>

definition linear_a8_w8_o32 ::
  "handle \<Rightarrow> tensor \<Rightarrow> tensor \<Rightarrow> tensor \<Rightarrow> runtime \<Rightarrow> (error + tensor) \<times> runtime" where
  "linear_a8_w8_o32 h x w y rt =
     (let rt' = rt\<lparr>kernel_calls := kernel_calls rt @ [(h, shape x, shape w, shape y)]\<rparr> in
      case (shape x, shape w, storage x, storage w) of
        ([b, k], [n, k'], Ints xs, Ints ws) \<Rightarrow>
          (let dots = map (\<lambda>p. dot_rows xs ws k (p div n) (p mod n)) [0..<b * n] in
           if k' = k \<and> shape y = [b, n]
              \<and> dtype x = Int8 \<and> dtype w = Int8 \<and> dtype y = Int32
              \<and> is_contiguous x \<and> is_contiguous w \<and> is_contiguous y
              \<and> length xs = b * k \<and> length ws = n * k
              \<and> list_all int8_range xs \<and> list_all int8_range ws
              \<and> list_all int32_range dots
           then (Inr (y\<lparr>storage := Ints dots\<rparr>), rt')
           else (Inl OutsideKernelContract, rt'))
      | _ \<Rightarrow> (Inl OutsideKernelContract, rt'))"

section \<open>The shared kernel handle\<close>

type_synonym obj = nat

text \<open>
  The state of the process that the singleton lives in: the class attribute
  \<open>Int8GEMM._instance\<close> (absent at first), whether \<open>Int8GEMM._instance_lock\<close> is held,
  how many objects \<open>object.__new__\<close> has made (the next one gets that number as its
  identity), the attribute \<open>i8cugemm\<close> of each object that has one, and how many times
  the native factory \<open>ops.I8CUGEMM\<close> has been invoked.
\<close>

record process =
  Int8GEMM_instance :: "obj option"
  instance_lock_held :: bool
  objects_created :: nat
  i8cugemm_attr :: "(obj \<times> handle) list"
  factory_calls :: nat

definition process0 :: process where
  "process0 = \<lparr>Int8GEMM_instance = None, instance_lock_held = False, objects_created = 0,
               i8cugemm_attr = [], factory_calls = 0\<rparr>"

text \<open>
  Modelled from the spec: the native factory \<open>ops.I8CUGEMM\<close> of \<open>aphrodite._C\<close> is not
  among the sources. Each invocation constructs a new native kernel object; the
  invocations are counted, and the object made by the \<open>i\<close>-th one is handle \<open>i\<close>.
\<close>

definition ops_I8CUGEMM :: "process \<Rightarrow> handle \<times> process" where
  "ops_I8CUGEMM p = (factory_calls p, p\<lparr>factory_calls := Suc (factory_calls p)\<rparr>)"

text \<open>\<open>object.__new__(cls)\<close>: a new object, without attributes.\<close>

definition object_new :: "process \<Rightarrow> obj \<times> process" where
  "object_new p = (objects_created p, p\<lparr>objects_created := Suc (objects_created p)\<rparr>)"

text \<open>
  \<open>Int8GEMM.__new__\<close>, run by one thread with no other thread running. \<open>None\<close> is a
  call that never returns, waiting for a lock that is held.
\<close>

definition Int8GEMM_new :: "process \<Rightarrow> ((error + obj) \<times> process) option" where
  "Int8GEMM_new p =
     (let r =
        (if Int8GEMM_instance p = None then
           (if instance_lock_held p then None
            else
              let p1 = p\<lparr>instance_lock_held := True\<rparr>;
                  p2 = (if Int8GEMM_instance p1 = None then
                          (let (ob, p') = object_new p1 in p'\<lparr>Int8GEMM_instance := Some ob\<rparr>)
                        else p1)
              in Some (p2\<lparr>instance_lock_held := False\<rparr>))
         else Some p)
      in case r of
           None \<Rightarrow> None
         | Some p3 \<Rightarrow>
             (case Int8GEMM_instance p3 of
                None \<Rightarrow> Some (Inl (AttributeError ''_instance''), p3)
              | Some ob \<Rightarrow> Some (Inr ob, p3)))"

text \<open>\<open>Int8GEMM.__init__(self)\<close>\<close>

definition Int8GEMM_init :: "obj \<Rightarrow> process \<Rightarrow> process" where
  "Int8GEMM_init self p =
     (if map_of (i8cugemm_attr p) self = None then
        (let (h, p') = ops_I8CUGEMM p
         in p'\<lparr>i8cugemm_attr := AList.update self h (i8cugemm_attr p')\<rparr>)
      else p)"

text \<open>
  \<open>Int8GEMM()\<close>: the class is called, so \<open>__new__\<close> runs and then, its result being an
  \<open>Int8GEMM\<close>, \<open>__init__\<close> runs on that result.
\<close>

definition Int8GEMM_call :: "process \<Rightarrow> ((error + obj) \<times> process) option" where
  "Int8GEMM_call p =
     (case Int8GEMM_new p of
        None \<Rightarrow> None
      | Some (Inl e, p1) \<Rightarrow> Some (Inl e, p1)
      | Some (Inr ob, p1) \<Rightarrow> Some (Inr ob, Int8GEMM_init ob p1))"

text \<open>\<open>Int8GEMM.get_i8cugemm(self)\<close>\<close>

definition get_i8cugemm :: "obj \<Rightarrow> process \<Rightarrow> error + handle" where
  "get_i8cugemm self p =
     (case map_of (i8cugemm_attr p) self of
        None \<Rightarrow> Inl (AttributeError ''i8cugemm'')
      | Some h \<Rightarrow> Inr h)"

section \<open>SQLinearMethod\<close>

record SQLinearMethod =
  i8cugemm :: handle

text \<open>\<open>SQLinearMethod.__init__(self, gemm)\<close>, where \<open>gemm\<close> is the class to call.\<close>

definition SQLinearMethod_init ::
  "(process \<Rightarrow> ((error + obj) \<times> process) option) \<Rightarrow> process
     \<Rightarrow> ((error + SQLinearMethod) \<times> process) option" where
  "SQLinearMethod_init gemm p =
     (case gemm p of
        None \<Rightarrow> None
      | Some (Inl e, p1) \<Rightarrow> Some (Inl e, p1)
      | Some (Inr i8_gemm, p1) \<Rightarrow>
          (case get_i8cugemm i8_gemm p1 of
             Inl e \<Rightarrow> Some (Inl e, p1)
           | Inr h \<Rightarrow> Some (Inr \<lparr>i8cugemm = h\<rparr>, p1)))"

text \<open>\<open>SmoothQuantConfig.get_linear_method(self)\<close>\<close>

definition get_linear_method ::
  "SmoothQuantConfig \<Rightarrow> process \<Rightarrow> ((error + SQLinearMethod) \<times> process) option" where
  "get_linear_method self p = SQLinearMethod_init Int8GEMM_call p"

text \<open>
  \<open>n\<close> acquisitions of the shared handle one after the other: the objects that
  \<open>Int8GEMM()\<close> returned, in order, and the state they leave.
\<close>

fun Int8GEMM_calls :: "nat \<Rightarrow> process \<Rightarrow> ((error + obj) list \<times> process) option" where
  "Int8GEMM_calls 0 p = Some ([], p)"
| "Int8GEMM_calls (Suc n) p =
     (case Int8GEMM_call p of
        None \<Rightarrow> None
      | Some (r, p1) \<Rightarrow>
          (case Int8GEMM_calls n p1 of
             None \<Rightarrow> None
           | Some (rs, p2) \<Rightarrow> Some (r # rs, p2)))"

text \<open>
  \<open>SQLinearMethod.create_weights\<close>. The four sizes are dimension counts, natural
  numbers; \<open>device="cuda"\<close> is the current CUDA device. The allocator's own failures
  (no device, no memory) are outside the model.
\<close>

definition create_weights ::
  "SQLinearMethod \<Rightarrow> nat \<Rightarrow> nat \<Rightarrow> nat \<Rightarrow> nat \<Rightarrow> dtype \<Rightarrow> runtime \<Rightarrow> tensor dict \<times> runtime" where
  "create_weights self input_size_per_partition output_size_per_partition input_size
       output_size params_dtype rt =
     (let (w, rt1) = torch_empty [output_size_per_partition, input_size_per_partition]
                       Int8 (CUDA (current_cuda rt)) rt;
          weight = set_weight_attrs (Parameter w False)
                     [(''input_dim'', 1), (''output_dim'', 0)];
          (q, rt2) = torch_tensor 1 Float32 CPU rt1;
          q_dequant_scale = Parameter q False;
          (k, rt3) = torch_tensor 1 Float32 CPU rt2;
          k_dequant_scale = Parameter k False;
          (v, rt4) = torch_tensor 1 Float32 CPU rt3;
          v_dequant_scale = Parameter v False;
          (g, rt5) = torch_tensor 1 Float32 CPU rt4;
          gate_dequant_scale = Parameter g False;
          (u, rt6) = torch_tensor 1 Float32 CPU rt5;
          up_dequant_scale = Parameter u False;
          (d, rt7) = torch_tensor 1 Float32 CPU rt6;
          dequant_scale = Parameter d False
      in ([(''weight'', weight),
           (''q_dequant_scale'', q_dequant_scale),
           (''k_dequant_scale'', k_dequant_scale),
           (''v_dequant_scale'', v_dequant_scale),
           (''gate_dequant_scale'', gate_dequant_scale),
           (''up_dequant_scale'', up_dequant_scale),
           (''dequant_scale'', dequant_scale)], rt7))"

text \<open>
  \<open>SQLinearMethod.apply_weights\<close>. Each exception leaves the runtime as it was when
  the exception was raised. The \<open>assert\<close> is executed, as an interpreter that was not
  started with \<open>-O\<close> does.
\<close>

definition apply_weights ::
  "SQLinearMethod \<Rightarrow> tensor dict \<Rightarrow> tensor \<Rightarrow> tensor option \<Rightarrow> runtime
     \<Rightarrow> (error + tensor) \<times> runtime" where
  "apply_weights self weights x bias rt =
     (if bias \<noteq> None then (Inl UnsupportedBias, rt)
      else
       (case map_of weights ''weight'' of
          None \<Rightarrow> (Inl (KeyError ''weight''), rt)
        | Some weight \<Rightarrow>
       (let x_shape = shape x in
       (case shape_last x of
          Inl e \<Rightarrow> (Inl e, rt)
        | Inr x_last \<Rightarrow>
       (case view x [- 1, int x_last] of
          Inl e \<Rightarrow> (Inl e, rt)
        | Inr x2 \<Rightarrow>
       (case shape_first x2 of
          Inl e \<Rightarrow> (Inl e, rt)
        | Inr rows \<Rightarrow>
       (case shape_first weight of
          Inl e \<Rightarrow> (Inl e, rt)
        | Inr cols \<Rightarrow>
       (let (y, rt1) = torch_empty [rows, cols] Int32 (device x2) rt in
       (case linear_a8_w8_o32 (i8cugemm self) x2 weight y rt1 of
          (Inl e, rt2) \<Rightarrow> (Inl e, rt2)
        | (Inr y2, rt2) \<Rightarrow>
       (case view y2 (map int (butlast x_shape) @ [- 1]) of
          Inl e \<Rightarrow> (Inl e, rt2)
        | Inr y3 \<Rightarrow> (Inr y3, rt2)))))))))))"

text \<open>The scale tensor that \<open>create_weights\<close> makes six times.\<close>

definition scale_one :: tensor where
  "scale_one = \<lparr>shape = [], stride = [], dtype = Float32, device = CPU,
                requires_grad = False, attrs = [], storage = Floats [1]\<rparr>"

text \<open>
  Concrete inputs for \<open>apply_weights\<close>: a weight of shape \<open>[2, 3]\<close>, an input of shape
  \<open>[1, 2, 3]\<close>, an input of shape \<open>[0, 3]\<close> (an empty batch), all three contiguous, and
  a runtime that has done nothing yet.
\<close>

definition example_weight :: tensor where
  "example_weight = \<lparr>shape = [2, 3], stride = [3, 1], dtype = Int8, device = CUDA 0,
                     requires_grad = False,
                     attrs = [(''input_dim'', 1), (''output_dim'', 0)],
                     storage = Ints [1, 0, - 1, 2, 2, 2]\<rparr>"

definition example_input :: tensor where
  "example_input = \<lparr>shape = [1, 2, 3], stride = [6, 3, 1], dtype = Int8, device = CUDA 0,
                    requires_grad = False, attrs = [], storage = Ints [1, 2, 3, 4, 5, 6]\<rparr>"

definition empty_input :: tensor where
  "empty_input = \<lparr>shape = [0, 3], stride = [3, 1], dtype = Int8, device = CUDA 0,
                  requires_grad = False, attrs = [], storage = Ints []\<rparr>"

text \<open>
  An input of shape \<open>[2, 2, 3]\<close> that is not contiguous: the transpose of the first two
  dimensions of a contiguous tensor, whose memory it shares.
\<close>

definition transposed_input :: tensor where
  "transposed_input = \<lparr>shape = [2, 2, 3], stride = [3, 6, 1], dtype = Int8, device = CUDA 0,
                       requires_grad = False, attrs = [],
                       storage = Ints [1, 2, 3, 4, 5, 6, 7, 8, 9, 10, 11, 12]\<rparr>"

definition runtime0 :: runtime where
  "runtime0 = \<lparr>current_cuda = 0, allocations = [], kernel_calls = []\<rparr>"

section \<open>Threads acquiring the shared kernel handle\<close>

text \<open>
  A thread that runs \<open>SmoothQuantConfig.get_linear_method()\<close>, that is
  \<open>SQLinearMethod(Int8GEMM)\<close>, one statement at a time. Its program counter names the
  statement it runs next:
  \<^item> \<open>New_outer_test\<close>: \<open>if not hasattr(Int8GEMM, "_instance")\<close>, the first one
  \<^item> \<open>New_lock\<close>: entering \<open>with Int8GEMM._instance_lock\<close>, which waits while the lock
    is held
  \<^item> \<open>New_inner_test\<close>: \<open>if not hasattr(Int8GEMM, "_instance")\<close>, under the lock
  \<^item> \<open>New_create\<close>: \<open>Int8GEMM._instance = object.__new__(cls)\<close>
  \<^item> \<open>New_unlock\<close>: leaving the \<open>with\<close> block
  \<^item> \<open>New_return\<close>: \<open>return Int8GEMM._instance\<close>, after which \<open>__init__\<close> runs on
    the object returned
  \<^item> \<open>Init_test self\<close>: \<open>if not hasattr(self, "i8cugemm")\<close>
  \<^item> \<open>Init_assign self\<close>: \<open>self.i8cugemm = ops.I8CUGEMM()\<close>
  \<^item> \<open>Get_handle self\<close>: \<open>self.i8cugemm = i8_gemm.get_i8cugemm()\<close> of
    \<open>SQLinearMethod.__init__\<close>
  \<^item> \<open>Done r\<close>: the call has returned \<open>r\<close> or raised it
  Each statement is one indivisible step, the coarsest grain at which threads of one
  interpreter take turns. \<open>step\<close> is \<open>None\<close> for a thread that cannot move: one that
  waits for the lock, or has finished.
\<close>

datatype pc =
    New_outer_test
  | New_lock
  | New_inner_test
  | New_create
  | New_unlock
  | New_return
  | Init_test obj
  | Init_assign obj
  | Get_handle obj
  | Done "error + SQLinearMethod"

fun step :: "pc \<Rightarrow> process \<Rightarrow> (pc \<times> process) option" where
  "step New_outer_test p =
     Some (if Int8GEMM_instance p = None then New_lock else New_return, p)"
| "step New_lock p =
     (if instance_lock_held p then None
      else Some (New_inner_test, p\<lparr>instance_lock_held := True\<rparr>))"
| "step New_inner_test p =
     Some (if Int8GEMM_instance p = None then New_create else New_unlock, p)"
| "step New_create p =
     (let (ob, p') = object_new p in Some (New_unlock, p'\<lparr>Int8GEMM_instance := Some ob\<rparr>))"
| "step New_unlock p = Some (New_return, p\<lparr>instance_lock_held := False\<rparr>)"
| "step New_return p =
     (case Int8GEMM_instance p of
        None \<Rightarrow> Some (Done (Inl (AttributeError ''_instance'')), p)
      | Some ob \<Rightarrow> Some (Init_test ob, p))"
| "step (Init_test self) p =
     Some (if map_of (i8cugemm_attr p) self = None then Init_assign self else Get_handle self,
           p)"
| "step (Init_assign self) p =
     (let (h, p') = ops_I8CUGEMM p
      in Some (Get_handle self, p'\<lparr>i8cugemm_attr := AList.update self h (i8cugemm_attr p')\<rparr>))"
| "step (Get_handle self) p =
     (case get_i8cugemm self p of
        Inl e \<Rightarrow> Some (Done (Inl e), p)
      | Inr h \<Rightarrow> Some (Done (Inr \<lparr>i8cugemm = h\<rparr>), p))"
| "step (Done r) p = None"

text \<open>
  A schedule names the thread that takes each turn. A thread that cannot move, or a
  number that names no thread, leaves the state as it is.
\<close>

fun run :: "nat list \<Rightarrow> pc list \<times> process \<Rightarrow> pc list \<times> process" where
  "run [] c = c"
| "run (t # ts) (pcs, p) =
     (if t < length pcs then
        (case step (pcs ! t) p of
           None \<Rightarrow> run ts (pcs, p)
         | Some (pc', p') \<Rightarrow> run ts (pcs[t := pc'], p'))
      else run ts (pcs, p))"

text \<open>
  The process after the first acquisition: one object, one kernel handle, one
  invocation of the factory.
\<close>

definition process1 :: process where
  "process1 = \<lparr>Int8GEMM_instance = Some 0, instance_lock_held = False, objects_created = 1,
               i8cugemm_attr = [(0, 0)], factory_calls = 1\<rparr>"

text \<open>
  What holds of the threads and the process under every schedule. A thread is in the
  critical section from the moment it has the lock to the moment it gives it up;
  \<open>returned_obj\<close> is the object that \<open>Int8GEMM.__new__\<close> returned to a thread that is
  past it. The invariant: no object or the one object 0; at most one thread in the
  critical section, and one exactly when the lock is held; a thread about to create the
  instance sees none; and every thread past \<open>__new__\<close> holds the instance.
\<close>

definition in_cs :: "pc \<Rightarrow> bool" where
  "in_cs c = (c = New_inner_test \<or> c = New_create \<or> c = New_unlock)"

fun returned_obj :: "pc \<Rightarrow> obj option" where
  "returned_obj (Init_test ob) = Some ob"
| "returned_obj (Init_assign ob) = Some ob"
| "returned_obj (Get_handle ob) = Some ob"
| "returned_obj _ = None"

definition one_instance :: "pc list \<times> process \<Rightarrow> bool" where
  "one_instance c =
     (case c of (pcs, p) \<Rightarrow>
        (Int8GEMM_instance p = None \<and> objects_created p = 0
           \<or> Int8GEMM_instance p = Some 0 \<and> objects_created p = 1)
      \<and> (\<forall>t<length pcs. \<forall>t'<length pcs. in_cs (pcs ! t) \<and> in_cs (pcs ! t') \<longrightarrow> t = t')
      \<and> ((\<exists>t<length pcs. in_cs (pcs ! t)) = instance_lock_held p)
      \<and> (\<forall>t<length pcs. pcs ! t = New_create \<longrightarrow> Int8GEMM_instance p = None)
      \<and> (\<forall>t<length pcs. \<forall>ob. returned_obj (pcs ! t) = Some ob \<longrightarrow>
            Int8GEMM_instance p = Some ob))"

section \<open>Construction of the policy\<close>

text \<open>
  C4. For every \<open>weightBits \<noteq> 8\<close>, with any \<open>quantMap\<close>, construction fails with
  \<open>UnsupportedBitWidth\<close>; for \<open>weightBits = 8\<close> the bit-width check passes. The first
  conjunct is the claim for an integer bit width, the second for any Python value that
  \<open>!=\<close> tells from 8, the third that 8 never fails that check.
\<close>

theorem bit_width_check:
  "(n \<noteq> 8 \<longrightarrow> SmoothQuantConfig_init (PInt n) qm = Inl (UnsupportedBitWidth (PInt n)))
   \<and> (\<not> py_eq_int wb 8 \<longrightarrow> SmoothQuantConfig_init wb qm = Inl (UnsupportedBitWidth wb))
   \<and> (\<forall>v. SmoothQuantConfig_init (PInt 8) qm \<noteq> Inl (UnsupportedBitWidth v))"
  by (simp add: SmoothQuantConfig_init_def)

theorem bit_width_check_witness:
  "(4::int) \<noteq> 8
   \<and> SmoothQuantConfig_init (PInt 4) (Some [(''qkv'', PStr ''per-tensor'')])
       = Inl (UnsupportedBitWidth (PInt 4))
   \<and> \<not> py_eq_int (PStr ''8'') 8
   \<and> SmoothQuantConfig_init (PStr ''8'') (Some [(''qkv'', PStr ''per-tensor'')])
       = Inl (UnsupportedBitWidth (PStr ''8''))
   \<and> SmoothQuantConfig_init (PInt 8) (Some [(''qkv'', PStr ''per-tensor'')])
       = Inr \<lparr>weight_bits = PInt 8, quant_map = Some [(''qkv'', PStr ''per-tensor'')]\<rparr>"
  using bit_width_check [of 4 "Some [(''qkv'', PStr ''per-tensor'')]" "PStr ''8''"]
  by (simp add: SmoothQuantConfig_init_def)

text \<open>
  C5. With a bit width of 8, an absent or empty \<open>quantMap\<close> fails with
  \<open>EmptyQuantizationMap\<close>, and a non-empty one raises nothing: the policy is returned.
\<close>

theorem empty_quant_map_check:
  assumes "py_eq_int wb 8"
  shows "SmoothQuantConfig_init wb None = Inl EmptyQuantizationMap
         \<and> SmoothQuantConfig_init wb (Some []) = Inl EmptyQuantizationMap
         \<and> (qm \<noteq> [] \<longrightarrow>
              SmoothQuantConfig_init wb (Some qm)
                = Inr \<lparr>weight_bits = wb, quant_map = Some qm\<rparr>)"
  using assms by (simp add: SmoothQuantConfig_init_def)

theorem empty_quant_map_check_witness:
  "py_eq_int (PInt 8) 8
   \<and> SmoothQuantConfig_init (PInt 8) None = Inl EmptyQuantizationMap
   \<and> SmoothQuantConfig_init (PInt 8) (Some []) = Inl EmptyQuantizationMap
   \<and> [(''out'', PStr ''per-token'')] \<noteq> []
   \<and> SmoothQuantConfig_init (PInt 8) (Some [(''out'', PStr ''per-token'')])
       = Inr \<lparr>weight_bits = PInt 8, quant_map = Some [(''out'', PStr ''per-token'')]\<rparr>"
proof -
  have h: "py_eq_int (PInt 8) 8" by simp
  from h empty_quant_map_check [OF h, of "[(''out'', PStr ''per-token'')]"]
  show ?thesis by simp
qed

text \<open>
  C9. When both preconditions are violated, a bit width other than 8 and an absent or
  empty \<open>quantMap\<close>, the failure is \<open>UnsupportedBitWidth\<close>: the bit width is checked
  first.
\<close>

theorem bit_width_checked_first:
  assumes "\<not> py_eq_int wb 8" and "qm = None \<or> qm = Some []"
  shows "SmoothQuantConfig_init wb qm = Inl (UnsupportedBitWidth wb)"
  using assms by (simp add: SmoothQuantConfig_init_def)

theorem bit_width_checked_first_witness:
  "\<not> py_eq_int (PInt 4) 8
   \<and> SmoothQuantConfig_init (PInt 4) None = Inl (UnsupportedBitWidth (PInt 4))
   \<and> SmoothQuantConfig_init (PInt 16) (Some []) = Inl (UnsupportedBitWidth (PInt 16))"
proof -
  have h4: "\<not> py_eq_int (PInt 4) 8" and h16: "\<not> py_eq_int (PInt 16) 8" by simp_all
  show ?thesis
    using h4 bit_width_checked_first [OF h4, of None]
      bit_width_checked_first [OF h16, of "Some []"]
    by simp
qed

section \<open>Parsing the raw configuration\<close>

lemma py_in_strs_granularity:
  "py_in_strs v [''per-tensor'', ''per-token''] = is_granularity (k, v)"
  by (cases v) (auto simp: py_in_strs_def is_granularity_def)

lemma update_fresh: "k \<notin> fst ` set d \<Longrightarrow> AList.update k v d = d @ [(k, v)]"
  by (induction d) auto

lemma from_config_items_filter:
  "distinct (map fst (qm @ items)) \<Longrightarrow>
   from_config_items items qm = qm @ filter is_granularity items"
proof (induction items arbitrary: qm)
  case Nil
  then show ?case by simp
next
  case (Cons kv items)
  obtain k v where kv: "kv = (k, v)" by (cases kv)
  from Cons.prems kv have fresh: "k \<notin> fst ` set qm" by auto
  show ?case
  proof (cases "is_granularity (k, v)")
    case True
    from Cons.prems kv have "distinct (map fst ((qm @ [(k, v)]) @ items))" by auto
    from Cons.IH [OF this] True fresh kv show ?thesis
      by (simp add: py_in_strs_granularity [of v k] dict_setitem_def update_fresh)
  next
    case False
    from Cons.prems kv have "distinct (map fst (qm @ items))" by auto
    from Cons.IH [OF this] False kv show ?thesis
      by (simp add: py_in_strs_granularity [of v k])
  qed
qed

lemma get_from_keys_spec:
  "get_from_keys config [''w_bit'', ''bits''] =
     (if map_of config ''w_bit'' = None \<and> map_of config ''bits'' = None
      then Inl MissingBitWidthKey else Inr (spec_bit_width config))"
  by (simp add: spec_bit_width_def split: option.splits)

lemma from_config_eq_spec:
  assumes "distinct (map fst config)"
  shows "from_config config = FromRawConfig_spec config"
proof -
  from assms have "from_config_items config [] = spec_quant_map config"
    using from_config_items_filter [of "[]" config] by (simp add: spec_quant_map_def)
  then show ?thesis
    unfolding from_config_def FromRawConfig_spec_def get_from_keys_spec spec_warnings_def
    by (simp add: spec_bit_width_def)
qed

lemma from_config_example:
  "from_config [(''qkv'', PStr ''per-tensor''), (''out'', PStr ''per-token''), (''bits'', PInt 8)]
     = ([], Inr \<lparr>weight_bits = PInt 8,
                 quant_map = Some [(''qkv'', PStr ''per-tensor''), (''out'', PStr ''per-token'')]\<rparr>)"
  by (simp add: from_config_def SmoothQuantConfig_init_def py_in_strs_def dict_setitem_def)

text \<open>
  C6. On every raw configuration (a dict: each key once), \<open>from_config\<close> is the
  reference definition: the constructor applied to the bit width found under
  \<open>"w_bit"\<close> or \<open>"bits"\<close>, 8 with a warning and no exception when neither is there,
  and to the pairs whose value is exactly \<open>"per-tensor"\<close> or \<open>"per-token"\<close>. On
  \<open>{"qkv": "per-tensor", "out": "per-token", "bits": 8}\<close> it yields the bit width 8 and
  the map \<open>{"qkv": "per-tensor", "out": "per-token"}\<close>.
\<close>

theorem from_config_refines_spec:
  "(distinct (map fst config) \<longrightarrow> from_config config = FromRawConfig_spec config)
   \<and> from_config [(''qkv'', PStr ''per-tensor''), (''out'', PStr ''per-token''),
                   (''bits'', PInt 8)]
       = ([], Inr \<lparr>weight_bits = PInt 8,
                   quant_map = Some [(''qkv'', PStr ''per-tensor''),
                                     (''out'', PStr ''per-token'')]\<rparr>)"
  using from_config_eq_spec from_config_example by blast

theorem from_config_refines_spec_witness:
  "distinct (map fst [(''fc1'', PStr ''per-tensor''), (''group_size'', PInt 128)])
   \<and> from_config [(''fc1'', PStr ''per-tensor''), (''group_size'', PInt 128)]
       = FromRawConfig_spec [(''fc1'', PStr ''per-tensor''), (''group_size'', PInt 128)]
   \<and> from_config [(''fc1'', PStr ''per-tensor''), (''group_size'', PInt 128)]
       = ([DefaultWeightBitsWarning MissingBitWidthKey],
          Inr \<lparr>weight_bits = PInt 8, quant_map = Some [(''fc1'', PStr ''per-tensor'')]\<rparr>)"
proof -
  have d: "distinct (map fst [(''fc1'', PStr ''per-tensor''), (''group_size'', PInt 128)])"
    by simp
  have r: "from_config [(''fc1'', PStr ''per-tensor''), (''group_size'', PInt 128)]
       = FromRawConfig_spec [(''fc1'', PStr ''per-tensor''), (''group_size'', PInt 128)]"
    using from_config_refines_spec [of "[(''fc1'', PStr ''per-tensor''), (''group_size'', PInt 128)]"] d
    by blast
  have v: "FromRawConfig_spec [(''fc1'', PStr ''per-tensor''), (''group_size'', PInt 128)]
       = ([DefaultWeightBitsWarning MissingBitWidthKey],
          Inr \<lparr>weight_bits = PInt 8, quant_map = Some [(''fc1'', PStr ''per-tensor'')]\<rparr>)"
    by (simp add: FromRawConfig_spec_def spec_warnings_def spec_bit_width_def
        spec_quant_map_def is_granularity_def SmoothQuantConfig_init_def)
  from d r v show ?thesis by simp
qed

text \<open>
  C10, as stated: after a successful \<open>from_config\<close> the map has neither \<open>"w_bit"\<close> nor
  \<open>"bits"\<close> as a key. It fails on \<open>{"w_bit": 8, "bits": "per-tensor"}\<close>: the bit width
  is read from \<open>"w_bit"\<close>, the construction succeeds, and \<open>"bits"\<close> is kept in the map.
\<close>

theorem bits_key_kept_counterexample:
  "snd (from_config [(''w_bit'', PInt 8), (''bits'', PStr ''per-tensor'')])
     = Inr \<lparr>weight_bits = PInt 8, quant_map = Some [(''bits'', PStr ''per-tensor'')]\<rparr>
   \<and> ''bits'' \<in> dict_keys [(''bits'', PStr ''per-tensor'')]"
  by (simp add: from_config_def SmoothQuantConfig_init_def py_in_strs_def dict_setitem_def
      dict_keys_def)

lemma granularity_not_eight: "is_granularity (k, v) \<Longrightarrow> \<not> py_eq_int v 8"
  by (auto simp: is_granularity_def)

text \<open>
  C10, amended: after a successful \<open>from_config\<close> on a dict, the map never has
  \<open>"w_bit"\<close> as a key, and has \<open>"bits"\<close> as a key only when the configuration also has
  the key \<open>"w_bit"\<close>, whose value, equal to 8, is then the bit width. And when the key
  that the bit width is read from, \<open>"w_bit"\<close> if it is present and \<open>"bits"\<close> otherwise,
  holds \<open>"per-tensor"\<close> or \<open>"per-token"\<close>, \<open>from_config\<close> fails with
  \<open>UnsupportedBitWidth\<close>.
\<close>

theorem quant_map_bit_width_keys:
  "(distinct (map fst config) \<and> snd (from_config config) = Inr cfg \<longrightarrow>
      (\<exists>qm. quant_map cfg = Some qm \<and> ''w_bit'' \<notin> dict_keys qm
         \<and> (''bits'' \<in> dict_keys qm \<longrightarrow>
              (\<exists>u. map_of config ''w_bit'' = Some u \<and> py_eq_int u 8))))
   \<and> (map_of config ''w_bit'' = Some v
        \<and> (v = PStr ''per-tensor'' \<or> v = PStr ''per-token'') \<longrightarrow>
      snd (from_config config) = Inl (UnsupportedBitWidth v))
   \<and> (map_of config ''w_bit'' = None \<and> map_of config ''bits'' = Some v
        \<and> (v = PStr ''per-tensor'' \<or> v = PStr ''per-token'') \<longrightarrow>
      snd (from_config config) = Inl (UnsupportedBitWidth v))"
proof (intro conjI impI)
  assume "distinct (map fst config) \<and> snd (from_config config) = Inr cfg"
  then have dist: "distinct (map fst config)" and ok: "snd (from_config config) = Inr cfg"
    by simp_all
  from dist ok have spec: "snd (FromRawConfig_spec config) = Inr cfg"
    by (simp add: from_config_eq_spec)
  then have eight: "py_eq_int (spec_bit_width config) 8"
    and qm: "quant_map cfg = Some (spec_quant_map config)"
    by (auto simp: FromRawConfig_spec_def SmoothQuantConfig_init_def split: if_splits)
  have no_w_bit: "''w_bit'' \<notin> dict_keys (spec_quant_map config)"
  proof
    assume "''w_bit'' \<in> dict_keys (spec_quant_map config)"
    then obtain u where mem: "(''w_bit'', u) \<in> set config" and g: "is_granularity (''w_bit'', u)"
      by (auto simp: dict_keys_def spec_quant_map_def)
    from dist mem have "map_of config ''w_bit'' = Some u" by simp
    then have "spec_bit_width config = u" by (simp add: spec_bit_width_def)
    with eight granularity_not_eight [OF g] show False by simp
  qed
  have bits: "\<exists>u. map_of config ''w_bit'' = Some u \<and> py_eq_int u 8"
    if "''bits'' \<in> dict_keys (spec_quant_map config)"
  proof -
    from that obtain u where mem: "(''bits'', u) \<in> set config"
      and g: "is_granularity (''bits'', u)"
      by (auto simp: dict_keys_def spec_quant_map_def)
    from dist mem have b: "map_of config ''bits'' = Some u" by simp
    show ?thesis
    proof (cases "map_of config ''w_bit''")
      case None
      with b have "spec_bit_width config = u" by (simp add: spec_bit_width_def)
      with eight granularity_not_eight [OF g] show ?thesis by simp
    next
      case (Some u')
      then have "spec_bit_width config = u'" by (simp add: spec_bit_width_def)
      with eight Some show ?thesis by simp
    qed
  qed
  from qm no_w_bit bits
  show "\<exists>qm. quant_map cfg = Some qm \<and> ''w_bit'' \<notin> dict_keys qm
         \<and> (''bits'' \<in> dict_keys qm \<longrightarrow>
              (\<exists>u. map_of config ''w_bit'' = Some u \<and> py_eq_int u 8))"
    by blast
next
  assume "map_of config ''w_bit'' = Some v
        \<and> (v = PStr ''per-tensor'' \<or> v = PStr ''per-token'')"
  then show "snd (from_config config) = Inl (UnsupportedBitWidth v)"
    by (auto simp: from_config_def SmoothQuantConfig_init_def)
next
  assume "map_of config ''w_bit'' = None \<and> map_of config ''bits'' = Some v
        \<and> (v = PStr ''per-tensor'' \<or> v = PStr ''per-token'')"
  then show "snd (from_config config) = Inl (UnsupportedBitWidth v)"
    by (auto simp: from_config_def SmoothQuantConfig_init_def)
qed

theorem quant_map_bit_width_keys_witness:
  "distinct (map fst [(''w_bit'', PInt 8), (''bits'', PStr ''per-tensor''), (''qkv'', PStr ''per-token'')])
   \<and> snd (from_config [(''w_bit'', PInt 8), (''bits'', PStr ''per-tensor''), (''qkv'', PStr ''per-token'')])
       = Inr \<lparr>weight_bits = PInt 8,
              quant_map = Some [(''bits'', PStr ''per-tensor''), (''qkv'', PStr ''per-token'')]\<rparr>
   \<and> ''w_bit'' \<notin> dict_keys [(''bits'', PStr ''per-tensor''), (''qkv'', PStr ''per-token'')]
   \<and> ''bits'' \<in> dict_keys [(''bits'', PStr ''per-tensor''), (''qkv'', PStr ''per-token'')]
   \<and> (\<exists>u. map_of [(''w_bit'', PInt 8), (''bits'', PStr ''per-tensor''), (''qkv'', PStr ''per-token'')]
              ''w_bit'' = Some u \<and> py_eq_int u 8)
   \<and> map_of [(''w_bit'', PStr ''per-tensor''), (''qkv'', PStr ''per-token'')] ''w_bit''
       = Some (PStr ''per-tensor'')
   \<and> snd (from_config [(''w_bit'', PStr ''per-tensor''), (''qkv'', PStr ''per-token'')])
       = Inl (UnsupportedBitWidth (PStr ''per-tensor''))
   \<and> map_of [(''qkv'', PStr ''per-tensor''), (''bits'', PStr ''per-token'')] ''w_bit'' = None
   \<and> map_of [(''qkv'', PStr ''per-tensor''), (''bits'', PStr ''per-token'')] ''bits''
       = Some (PStr ''per-token'')
   \<and> snd (from_config [(''qkv'', PStr ''per-tensor''), (''bits'', PStr ''per-token'')])
       = Inl (UnsupportedBitWidth (PStr ''per-token''))"
proof -
  let ?c = "[(''w_bit'', PInt 8), (''bits'', PStr ''per-tensor''), (''qkv'', PStr ''per-token'')]"
  let ?r = "\<lparr>weight_bits = PInt 8,
              quant_map = Some [(''bits'', PStr ''per-tensor''), (''qkv'', PStr ''per-token'')]\<rparr>"
  let ?c2 = "[(''w_bit'', PStr ''per-tensor''), (''qkv'', PStr ''per-token'')]"
  let ?c3 = "[(''qkv'', PStr ''per-tensor''), (''bits'', PStr ''per-token'')]"
  have d: "distinct (map fst ?c)" by simp
  have ok: "snd (from_config ?c) = Inr ?r"
    by (simp add: from_config_def SmoothQuantConfig_init_def py_in_strs_def dict_setitem_def)
  from quant_map_bit_width_keys [of ?c ?r] d ok
  have first: "\<exists>qm. quant_map ?r = Some qm \<and> ''w_bit'' \<notin> dict_keys qm
         \<and> (''bits'' \<in> dict_keys qm \<longrightarrow>
              (\<exists>u. map_of ?c ''w_bit'' = Some u \<and> py_eq_int u 8))"
    by blast
  have h2: "map_of ?c2 ''w_bit'' = Some (PStr ''per-tensor'')" by simp
  from quant_map_bit_width_keys [of ?c2 _ "PStr ''per-tensor''"] h2
  have second: "snd (from_config ?c2) = Inl (UnsupportedBitWidth (PStr ''per-tensor''))"
    by blast
  have h3: "map_of ?c3 ''w_bit'' = None" "map_of ?c3 ''bits'' = Some (PStr ''per-token'')"
    by simp_all
  from quant_map_bit_width_keys [of ?c3 _ "PStr ''per-token''"] h3
  have third: "snd (from_config ?c3) = Inl (UnsupportedBitWidth (PStr ''per-token''))"
    by blast
  from d ok first second third h2 h3 show ?thesis
    by (simp add: dict_keys_def)
qed

section \<open>The weights of the operator\<close>

text \<open>
  C3. For every pair of partition sizes and every requested element type,
  \<open>create_weights\<close> returns a weight tensor of shape
  \<open>[outputPartitionSize, inputPartitionSize]\<close> whose elements are 8-bit signed
  integers whatever type was requested, tagged \<open>input_dim = 1\<close> and \<open>output_dim = 0\<close>,
  and with it exactly six scalar float32 scale tensors (q, k, v, gate, up, dequant), each
  equal to 1.0 and in host memory.
\<close>

theorem create_weights_layout:
  "fst (create_weights self isp osp input_size output_size params_dtype rt) =
     [(''weight'',
       \<lparr>shape = [osp, isp], stride = [max 1 isp, 1], dtype = Int8,
        device = CUDA (current_cuda rt), requires_grad = False,
        attrs = [(''input_dim'', 1), (''output_dim'', 0)], storage = Uninitialized\<rparr>),
      (''q_dequant_scale'', scale_one),
      (''k_dequant_scale'', scale_one),
      (''v_dequant_scale'', scale_one),
      (''gate_dequant_scale'', scale_one),
      (''up_dequant_scale'', scale_one),
      (''dequant_scale'', scale_one)]"
  by (simp add: create_weights_def torch_empty_def torch_tensor_def Parameter_def
      set_weight_attrs_def dict_setitem_def scale_one_def)

text \<open>
  C8. Two calls of \<open>create_weights\<close> that agree on the two partition sizes return the
  same weights and scales and do the same allocations, however they differ in the two
  total sizes (and in the requested element type).
\<close>

theorem create_weights_ignores_total_sizes:
  "create_weights self isp osp input_size output_size params_dtype rt
     = create_weights self isp osp input_size' output_size' params_dtype' rt"
  by (simp add: create_weights_def)

section \<open>The forward pass\<close>

text \<open>
  C7. With a bias that is not absent, \<open>apply_weights\<close> fails with \<open>UnsupportedBias\<close>
  whatever the weights and the input are, and it has allocated nothing and called the
  kernel not at all: the runtime is the one it was given.
\<close>

theorem apply_weights_rejects_bias:
  "apply_weights self weights x (Some b) rt = (Inl UnsupportedBias, rt)
   \<and> allocations (snd (apply_weights self weights x (Some b) rt)) = allocations rt
   \<and> kernel_calls (snd (apply_weights self weights x (Some b) rt)) = kernel_calls rt"
  by (simp add: apply_weights_def)

lemma infer_scan_sizes:
  "infer_scan (map int ds @ rest) i infer_dim newsize
     = infer_scan rest (i + length ds) infer_dim (newsize * prod_list ds)"
  by (induction ds arbitrary: i newsize) (simp_all add: mult.assoc)

lemma infer_size_flatten:
  assumes "0 < k"
  shows "infer_size [- 1, int k] (b * k) = Inr [b, k]"
  using assms by (simp add: infer_size_def)

lemma infer_size_unflatten:
  assumes "0 < prod_list lead"
  shows "infer_size (map int lead @ [- 1]) (prod_list lead * n) = Inr (lead @ [n])"
proof -
  have scan: "infer_scan (map int lead @ [- 1]) 0 None 1 = Inr (Some (length lead), prod_list lead)"
    by (simp add: infer_scan_sizes)
  have upd: "(map nat (map int lead @ [- 1]))[length lead := n] = lead @ [n]"
    by (simp add: list_update_append comp_def)
  from assms scan upd show ?thesis
    by (simp add: infer_size_def)
qed

lemma length_contiguous_strides [simp]: "length (contiguous_strides ds) = length ds"
  by (induction ds) simp_all

lemma positive_sizes: "0 \<notin> set ds \<Longrightarrow> map (max (Suc 0)) ds = ds"
  by (induction ds) (auto simp: max_def)

lemma prod_list_positive: "0 \<notin> set ds \<Longrightarrow> 0 < prod_list (ds :: nat list)"
  by (induction ds) auto

lemma contiguous_strides_snoc:
  "contiguous_strides (ds @ [d]) = map (\<lambda>s. s * max 1 d) (contiguous_strides ds) @ [1]"
  by (induction ds) simp_all

lemma offset_snoc:
  "length ix = length st \<Longrightarrow> offset (st @ [s]) (ix @ [i]) = offset st ix + i * s"
  by (simp add: offset_def)

lemma offset_scale:
  "offset (map (\<lambda>s. s * m) st) ix = offset st ix * m"
proof (induction st arbitrary: ix)
  case Nil
  then show ?case by (simp add: offset_def)
next
  case (Cons s st)
  then show ?case by (cases ix) (simp_all add: offset_def algebra_simps)
qed

lemma valid_index_length: "valid_index ds ix \<Longrightarrow> length ix = length ds"
  by (simp add: valid_index_def list_all2_lengthD)

lemma valid_index_positive: "valid_index ds ix \<Longrightarrow> 0 \<notin> set ds"
  by (auto simp: valid_index_def list_all2_conv_all_nth in_set_conv_nth)

lemma offset_row:
  assumes "valid_index lead ix" and "0 < k"
  shows "offset (contiguous_strides (lead @ [k])) (ix @ [c])
           = offset (contiguous_strides lead) ix * k + c"
  using assms
  by (simp add: contiguous_strides_snoc offset_snoc valid_index_length offset_scale max_def)

lemma offset_less:
  "valid_index ds ix \<Longrightarrow> offset (contiguous_strides ds) ix < prod_list ds"
proof (induction ds arbitrary: ix)
  case Nil
  then show ?case by (simp add: valid_index_def offset_def)
next
  case (Cons d ds)
  from Cons.prems obtain i ix' where ix: "ix = i # ix'" and i: "i < d"
    and v: "valid_index ds ix'"
    by (auto simp: valid_index_def list_all2_Cons2)
  from v have pos: "map (max (Suc 0)) ds = ds"
    by (simp add: positive_sizes valid_index_positive)
  from Cons.IH [OF v] have "i * prod_list ds + offset (contiguous_strides ds) ix'
      < Suc i * prod_list ds" by simp
  also from i have "\<dots> \<le> d * prod_list ds" by (intro mult_le_mono1) simp
  finally show ?case using ix pos by (simp add: offset_def)
qed

lemma index_of_row:
  "0 \<notin> set ds \<Longrightarrow> i < prod_list ds \<Longrightarrow>
   \<exists>ix. valid_index ds ix \<and> offset (contiguous_strides ds) ix = i"
proof (induction ds arbitrary: i)
  case Nil
  then show ?case by (simp add: valid_index_def offset_def)
next
  case (Cons d ds)
  let ?p = "prod_list ds"
  from Cons.prems have nz: "0 \<notin> set ds" and d: "0 < d" by auto
  then have p: "0 < ?p" by (simp add: prod_list_positive)
  from p have "i mod ?p < ?p" by simp
  from Cons.IH [OF nz this] obtain ix where v: "valid_index ds ix"
    and o: "offset (contiguous_strides ds) ix = i mod ?p" by blast
  from Cons.prems(2) p have q: "i div ?p < d"
    by (simp add: less_mult_imp_div_less mult.commute)
  from v q have "valid_index (d # ds) ((i div ?p) # ix)"
    by (simp add: valid_index_def)
  moreover from o nz have "offset (contiguous_strides (d # ds)) ((i div ?p) # ix) = i"
    by (simp add: offset_def positive_sizes)
  ultimately show ?case by blast
qed

lemma rev_zip_contiguous_snoc:
  assumes "0 < d"
  shows "rev (zip (ds @ [d]) (map (\<lambda>s. s * m) (contiguous_strides (ds @ [d]))))
           = (d, m) # rev (zip ds (map (\<lambda>s. s * (d * m)) (contiguous_strides ds)))"
  using assms by (simp add: contiguous_strides_snoc max_def comp_def mult.assoc)

lemma compute_chunks_contiguous:
  "0 \<notin> set ds \<Longrightarrow> ds \<noteq> [] \<Longrightarrow>
   compute_chunks (rev (zip ds (map (\<lambda>s. s * m) (contiguous_strides ds)))) vs ns 1 m vn
     = (case view_consume vs ns vn (m * prod_list ds) 1 of
          (vs', ns', vn') \<Rightarrow>
            if vn' \<noteq> m * prod_list ds then None
            else if vs' = [] then Some ns' else None)"
proof (induction ds arbitrary: m rule: rev_induct)
  case Nil
  then show ?case by simp
next
  case (snoc d ds)
  from snoc.prems have d: "0 < d" and nz: "0 \<notin> set ds" by auto
  show ?case
  proof (cases ds rule: rev_cases)
    case Nil
    with d show ?thesis by simp
  next
    case (snoc ds' d')
    with nz have d': "0 < d'" by auto
    let ?R = "rev (zip ds' (map (\<lambda>s. s * (d' * (d * m))) (contiguous_strides ds')))"
    have whole: "rev (zip (ds @ [d]) (map (\<lambda>s. s * m) (contiguous_strides (ds @ [d]))))
        = (d, m) # (d', d * m) # ?R"
      using d d' snoc by (simp only: rev_zip_contiguous_snoc)
    have rest: "rev (zip ds (map (\<lambda>s. s * (d * m)) (contiguous_strides ds)))
        = (d', d * m) # ?R"
      using d' snoc by (simp only: rev_zip_contiguous_snoc)
    have "compute_chunks ((d, m) # (d', d * m) # ?R) vs ns 1 m vn
        = compute_chunks ((d', d * m) # ?R) vs ns 1 (m * d) vn"
      by (simp add: mult.commute)
    also have "\<dots> = compute_chunks (rev (zip ds (map (\<lambda>s. s * (d * m)) (contiguous_strides ds))))
        vs ns 1 (d * m) vn"
      by (simp only: rest mult.commute)
    also have "\<dots> = (case view_consume vs ns vn (d * m * prod_list ds) 1 of
          (vs', ns', vn') \<Rightarrow>
            if vn' \<noteq> d * m * prod_list ds then None
            else if vs' = [] then Some ns' else None)"
      using snoc.IH [of "d * m"] nz \<open>ds = ds' @ [d']\<close> by simp
    finally show ?thesis
      by (simp only: whole) (simp add: mult.commute mult.left_commute)
  qed
qed

lemma view_consume_positive:
  "0 \<notin> set vs \<Longrightarrow> 0 < vn \<Longrightarrow> tn = vn * prod_list vs \<Longrightarrow>
   view_consume (rev vs) ns vn tn 1
     = ([], map (\<lambda>s. s * vn) (contiguous_strides vs) @ ns, tn)"
proof (induction vs arbitrary: ns vn rule: rev_induct)
  case Nil
  then show ?case by simp
next
  case (snoc v vs)
  from snoc.prems have v: "0 < v" and nz: "0 \<notin> set vs" and vn: "0 < vn"
    and tn: "tn = vn * v * prod_list vs" by (auto simp: mult.assoc mult.left_commute)
  from nz have p: "0 < prod_list vs" by (rule prod_list_positive)
  have cond: "vn < tn \<or> v = 1"
  proof (cases "v = 1")
    case False
    with v have "2 \<le> v" by simp
    with p have "2 * 1 \<le> v * prod_list vs" by (intro mult_le_mono) simp_all
    with vn have "vn * 2 \<le> vn * (v * prod_list vs)" by simp
    with vn tn show ?thesis by (simp add: mult.assoc)
  qed simp
  from nz v vn have ih: "view_consume (rev vs) (vn # ns) (vn * v) tn 1
      = ([], map (\<lambda>s. s * (vn * v)) (contiguous_strides vs) @ (vn # ns), tn)"
    by (intro snoc.IH) (simp_all add: tn)
  from cond ih v show ?case
    by (simp add: contiguous_strides_snoc max_def mult.assoc mult.commute)
qed

lemma last_contiguous_strides: "ds \<noteq> [] \<Longrightarrow> last (contiguous_strides ds) = 1"
  by (cases ds rule: rev_cases) (simp_all add: contiguous_strides_snoc)

lemma computeStride_contiguous:
  assumes "0 \<notin> set old" and "old \<noteq> []" and "0 \<notin> set new"
    and "prod_list new = prod_list old"
  shows "computeStride old (contiguous_strides old) new = Some (contiguous_strides new)"
proof -
  from assms(1) have "prod_list old \<noteq> 0" using prod_list_positive [of old] by simp
  moreover have "compute_chunks (rev (zip old (contiguous_strides old))) (rev new) [] 1 1 1
      = Some (contiguous_strides new)"
    using compute_chunks_contiguous [OF assms(1,2), of 1 "rev new" "[]" 1]
      view_consume_positive [OF assms(3), of 1 "prod_list old" "[]"] assms(4)
    by simp
  ultimately show ?thesis
    using assms(2) by (simp add: computeStride_def last_contiguous_strides)
qed

lemma dot_rows_sum:
  "dot_rows xs ws k i j = (\<Sum>c<k. xs ! (i * k + c) * ws ! (j * k + c))"
  by (simp add: dot_rows_def interv_sum_list_conv_sum_set_nat lessThan_atLeast0)

lemma dot_rows_elements:
  assumes "valid_index lead ix" and "0 < k"
  shows "(\<Sum>c<k. xs ! offset (contiguous_strides (lead @ [k])) (ix @ [c])
                   * ws ! offset (contiguous_strides [n, k]) [j, c])
           = dot_rows xs ws k (offset (contiguous_strides lead) ix) j"
  using assms by (simp add: dot_rows_sum offset_row) (simp add: offset_def max_def)

lemma computeStride_flatten:
  assumes "0 < k" and "0 \<notin> set lead"
  shows "computeStride (lead @ [k]) (contiguous_strides (lead @ [k])) [prod_list lead, k]
           = Some [k, 1]"
proof -
  from assms have "0 < prod_list lead" by (simp add: prod_list_positive)
  with assms have "computeStride (lead @ [k]) (contiguous_strides (lead @ [k]))
      [prod_list lead, k] = Some (contiguous_strides [prod_list lead, k])"
    by (intro computeStride_contiguous) simp_all
  with assms(1) show ?thesis by (simp add: max_def)
qed

lemma computeStride_unflatten:
  assumes "0 \<notin> set lead"
  shows "computeStride [prod_list lead, n] (contiguous_strides [prod_list lead, n]) (lead @ [n])
           = Some (contiguous_strides (lead @ [n]))"
proof (cases "n = 0")
  case True
  from assms have "0 < prod_list lead" by (simp add: prod_list_positive)
  with True show ?thesis
    by (cases lead) (auto simp: computeStride_def)
next
  case False
  from assms have "0 < prod_list lead" by (simp add: prod_list_positive)
  with assms False show ?thesis
    by (intro computeStride_contiguous) simp_all
qed

lemma matrix_contiguous:
  assumes "shape t = [r, c]" and "stride t = contiguous_strides [r, c]"
  shows "is_contiguous t"
  using assms by (simp add: is_contiguous_def numel_def max_def)

lemma kernel_in_contract:
  assumes "shape x = [b, k]" "shape w = [n, k]" "shape y = [b, n]"
    and "dtype x = Int8" "dtype w = Int8" "dtype y = Int32"
    and "is_contiguous x" "is_contiguous w" "is_contiguous y"
    and "storage x = Ints xs" "storage w = Ints ws"
    and "length xs = b * k" "length ws = n * k"
    and "list_all int8_range xs" "list_all int8_range ws"
    and "list_all int32_range (map (\<lambda>p. dot_rows xs ws k (p div n) (p mod n)) [0..<b * n])"
  shows "linear_a8_w8_o32 h x w y rt =
           (Inr (y\<lparr>storage := Ints (map (\<lambda>p. dot_rows xs ws k (p div n) (p mod n)) [0..<b * n])\<rparr>),
            rt\<lparr>kernel_calls := kernel_calls rt @ [(h, [b, k], [n, k], [b, n])]\<rparr>)"
  using assms by (simp add: linear_a8_w8_o32_def)

text \<open>
  A product of two 8-bit values is at most 16384 in size, so a sum of at most 131071 of
  them fits 32 bits: for such a \<open>k\<close> no sum of the product overflows.
\<close>

lemma int8_product_bound:
  assumes "int8_range a" and "int8_range b"
  shows "- 16384 \<le> a * b \<and> a * b \<le> 16384"
proof -
  from assms have "\<bar>a\<bar> \<le> 128" and "\<bar>b\<bar> \<le> 128"
    by (simp_all add: int8_range_def abs_le_iff)
  then have "\<bar>a\<bar> * \<bar>b\<bar> \<le> 128 * 128" by (intro mult_mono) simp_all
  then have "\<bar>a * b\<bar> \<le> 16384" by (simp add: abs_mult)
  then show ?thesis by (simp add: abs_le_iff)
qed

lemma small_k_fits:
  assumes v: "valid_index lead ix" and j: "j < n" and k: "0 < k" "k \<le> 131071"
    and x_len: "length xs = prod_list lead * k" and x_range: "list_all int8_range xs"
    and w_len: "length ws = n * k" and w_range: "list_all int8_range ws"
  shows "int32_range (\<Sum>c<k. xs ! offset (contiguous_strides (lead @ [k])) (ix @ [c])
                             * ws ! offset (contiguous_strides [n, k]) [j, c])"
proof -
  let ?i = "offset (contiguous_strides lead) ix"
  let ?t = "\<lambda>c. xs ! (?i * k + c) * ws ! (j * k + c)"
  have bound: "- 16384 \<le> ?t c \<and> ?t c \<le> 16384" if c: "c < k" for c
  proof -
    from offset_less [OF v] have "Suc ?i \<le> prod_list lead" by simp
    then have "Suc ?i * k \<le> prod_list lead * k" by (rule mult_le_mono1)
    with c x_len have "?i * k + c < length xs" by simp
    with x_range have a: "int8_range (xs ! (?i * k + c))" by (simp add: list_all_length)
    from j have "Suc j * k \<le> n * k" by (intro mult_le_mono1) simp
    with c w_len have "j * k + c < length ws" by simp
    with w_range have b: "int8_range (ws ! (j * k + c))" by (simp add: list_all_length)
    from a b show ?thesis by (rule int8_product_bound)
  qed
  have upper: "sum ?t {..<k} \<le> of_nat (card {..<k}) * 16384"
    by (rule sum_bounded_above) (simp add: bound)
  have lower: "of_nat (card {..<k}) * (- 16384) \<le> sum ?t {..<k}"
    by (rule sum_bounded_below) (simp add: bound)
  from k(2) have "int k * 16384 \<le> 2147467264" by simp
  with upper lower have "int32_range (sum ?t {..<k})"
    by (simp add: int32_range_def)
  with dot_rows_elements [OF v k(1), of xs ws n j] show ?thesis
    by (simp add: dot_rows_sum)
qed

text \<open>
  C1, as stated: for every input whose last size is the weight's column count, the call
  without a bias returns the product. It fails on an input of shape \<open>[0, 3]\<close> with a
  weight of shape \<open>[2, 3]\<close>: the output buffer of shape \<open>[0, 2]\<close> has no element, so
  the \<open>-1\<close> of the last \<open>view(0, -1)\<close> cannot be inferred and \<open>view\<close> raises.
\<close>

theorem empty_batch_counterexample:
  "map_of [(''weight'', example_weight)] ''weight'' = Some example_weight
   \<and> shape example_weight = [2, 3] \<and> shape empty_input = [0, 3]
   \<and> apply_weights \<lparr>i8cugemm = 0\<rparr> [(''weight'', example_weight)] empty_input None runtime0
       = (Inl (ViewError AmbiguousInferredDim),
          \<lparr>current_cuda = 0, allocations = [([0, 2], Int32, CUDA 0)],
           kernel_calls = [(0, [0, 3], [2, 3], [0, 2])]\<rparr>)"
  by code_simp

text \<open>
  An input that is not contiguous is refused as well: the first \<open>view(-1, 3)\<close> of the
  transposed input finds no strides that fit.
\<close>

lemma transposed_input_raises:
  "stride transposed_input \<noteq> contiguous_strides (shape transposed_input)
   \<and> apply_weights \<lparr>i8cugemm = 0\<rparr> [(''weight'', example_weight)] transposed_input None runtime0
       = (Inl (ViewError NotCompatibleWithStride), runtime0)"
  by code_simp

lemma example_run:
  "apply_weights \<lparr>i8cugemm = 0\<rparr> [(''weight'', example_weight)] example_input None runtime0
     = (Inr \<lparr>shape = [1, 2, 2], stride = [4, 2, 1], dtype = Int32, device = CUDA 0,
             requires_grad = False, attrs = [], storage = Ints [- 2, 12, - 2, 30]\<rparr>,
        \<lparr>current_cuda = 0, allocations = [([2, 2], Int32, CUDA 0)],
         kernel_calls = [(0, [2, 3], [2, 3], [2, 2])]\<rparr>)"
  by code_simp

text \<open>
  C1, amended: for every contiguous int8 input tensor (row-major strides, elements in
  \<open>[-128, 127]\<close>, its memory holding exactly its elements) none of whose sizes is 0
  and whose last size is the weight's column count \<open>k\<close>, and every such contiguous
  int8 weight tensor of shape \<open>[n, k]\<close> under the key \<open>"weight"\<close>, provided no sum
  \<open>\<Sum>c. input[..., c] * weight[j, c]\<close> overflows 32 bits, \<open>apply_weights\<close> without a bias
  returns a contiguous tensor whose shape is the input's leading sizes followed by \<open>n\<close>,
  of element type int32, allocated on the input's device, with
  \<open>output[..., j] = \<Sum>c. input[..., c] * weight[j, c]\<close>. One buffer is allocated and
  the kernel is called once, on the flattened input.
\<close>

theorem apply_weights_product:
  assumes weight: "map_of weights ''weight'' = Some w"
    and w_shape: "shape w = [n, k]" and w_stride: "stride w = contiguous_strides [n, k]"
    and w_dtype: "dtype w = Int8" and w_data: "storage w = Ints ws"
    and w_len: "length ws = n * k" and w_range: "list_all int8_range ws"
    and x_shape: "shape x = lead @ [k]"
    and x_stride: "stride x = contiguous_strides (lead @ [k])"
    and x_dtype: "dtype x = Int8" and x_data: "storage x = Ints xs"
    and x_len: "length xs = prod_list lead * k" and x_range: "list_all int8_range xs"
    and nonempty: "0 < k" "0 \<notin> set lead"
    and fits: "\<And>ix j. valid_index lead ix \<Longrightarrow> j < n \<Longrightarrow>
        int32_range (\<Sum>c<k. xs ! offset (stride x) (ix @ [c]) * ws ! offset (stride w) [j, c])"
  shows "\<exists>y ys. apply_weights self weights x None rt =
             (Inr y,
              rt\<lparr>allocations := allocations rt @ [([prod_list lead, n], Int32, device x)],
                 kernel_calls := kernel_calls rt
                    @ [(i8cugemm self, [prod_list lead, k], [n, k], [prod_list lead, n])]\<rparr>)
           \<and> shape y = lead @ [n] \<and> stride y = contiguous_strides (lead @ [n])
           \<and> dtype y = Int32 \<and> device y = device x
           \<and> storage y = Ints ys \<and> length ys = prod_list lead * n
           \<and> list_all int32_range ys
           \<and> (\<forall>ix j. valid_index lead ix \<and> j < n \<longrightarrow>
                 ys ! offset (stride y) (ix @ [j])
                   = (\<Sum>c<k. xs ! offset (stride x) (ix @ [c])
                              * ws ! offset (stride w) [j, c]))"
proof -
  let ?b = "prod_list lead"
  let ?x2 = "x\<lparr>shape := [?b, k], stride := [k, 1], attrs := []\<rparr>"
  let ?y = "\<lparr>shape = [?b, n], stride = contiguous_strides [?b, n], dtype = Int32,
             device = device x, requires_grad = False, attrs = [],
             storage = Uninitialized\<rparr>"
  let ?rt1 = "rt\<lparr>allocations := allocations rt @ [([?b, n], Int32, device x)]\<rparr>"
  let ?ys = "map (\<lambda>p. dot_rows xs ws k (p div n) (p mod n)) [0..<?b * n]"
  let ?y3 = "?y\<lparr>storage := Ints ?ys, shape := lead @ [n],
                stride := contiguous_strides (lead @ [n]), attrs := []\<rparr>"
  from nonempty(2) have b_pos: "0 < ?b" by (rule prod_list_positive)
  have dots: "(\<Sum>c<k. xs ! offset (stride x) (ix @ [c]) * ws ! offset (stride w) [j, c])
      = dot_rows xs ws k (offset (contiguous_strides lead) ix) j"
    if "valid_index lead ix" for ix j
    using that nonempty(1) by (simp only: x_stride w_stride dot_rows_elements)
  have in_range: "list_all int32_range ?ys"
  proof -
    have "int32_range (dot_rows xs ws k (p div n) (p mod n))" if p: "p < ?b * n" for p
    proof -
      from p have n: "0 < n" by (cases n) simp_all
      from p n have row: "p div n < ?b"
        by (simp add: less_mult_imp_div_less)
      from index_of_row [OF nonempty(2) row] obtain ix where v: "valid_index lead ix"
        and o: "offset (contiguous_strides lead) ix = p div n" by blast
      from n have "p mod n < n" by simp
      from fits [OF v this] dots [OF v] o show ?thesis by simp
    qed
    then show ?thesis by (simp add: list_all_iff)
  qed
  have last: "shape_last x = Inr k"
    using x_shape by (simp add: shape_last_def)
  have flat: "view x [- 1, int k] = Inr ?x2"
    using x_shape x_stride nonempty
    by (simp add: view_def numel_def infer_size_flatten computeStride_flatten)
  have rows: "shape_first ?x2 = Inr ?b" and cols: "shape_first w = Inr n"
    using w_shape by (simp_all add: shape_first_def)
  have alloc: "torch_empty [?b, n] Int32 (device ?x2) rt = (?y, ?rt1)"
    by (simp add: torch_empty_def)
  have x2_contiguous: "is_contiguous ?x2"
    using nonempty(1) by (intro matrix_contiguous [of _ ?b k]) (simp_all add: max_def)
  have w_contiguous: "is_contiguous w"
    using w_shape w_stride by (rule matrix_contiguous)
  have y_contiguous: "is_contiguous ?y"
    by (rule matrix_contiguous [of _ ?b n]) simp_all
  have kernel: "linear_a8_w8_o32 (i8cugemm self) ?x2 w ?y ?rt1 =
      (Inr (?y\<lparr>storage := Ints ?ys\<rparr>),
       ?rt1\<lparr>kernel_calls := kernel_calls ?rt1 @ [(i8cugemm self, [?b, k], [n, k], [?b, n])]\<rparr>)"
    using w_shape w_dtype w_data w_len w_range x_dtype x_data x_len x_range
      x2_contiguous w_contiguous y_contiguous in_range
    by (intro kernel_in_contract) simp_all
  have unflat: "view (?y\<lparr>storage := Ints ?ys\<rparr>) (map int (butlast (shape x)) @ [- 1]) = Inr ?y3"
    using x_shape b_pos nonempty(2)
    by (simp add: view_def numel_def infer_size_unflatten computeStride_unflatten
        del: contiguous_strides.simps)
  have run: "apply_weights self weights x None rt =
      (Inr ?y3,
       rt\<lparr>allocations := allocations rt @ [([?b, n], Int32, device x)],
          kernel_calls := kernel_calls rt @ [(i8cugemm self, [?b, k], [n, k], [?b, n])]\<rparr>)"
    unfolding apply_weights_def
    by (simp only: weight last flat rows cols alloc kernel unflat Let_def
        sum.case prod.case option.case simp_thms if_False) simp
  have entries: "?ys ! offset (contiguous_strides (lead @ [n])) (ix @ [j])
      = (\<Sum>c<k. xs ! offset (stride x) (ix @ [c]) * ws ! offset (stride w) [j, c])"
    if v: "valid_index lead ix" and j: "j < n" for ix j
  proof -
    let ?i = "offset (contiguous_strides lead) ix"
    from j have n: "0 < n" by simp
    from offset_less [OF v] have "Suc ?i \<le> ?b" by simp
    then have "Suc ?i * n \<le> ?b * n" by (rule mult_le_mono1)
    with j have in_range: "?i * n + j < ?b * n" by simp
    have "?ys ! (?i * n + j) = dot_rows xs ws k ?i j"
      using in_range j by simp
    with dots [OF v, of j] offset_row [OF v n, of j] show ?thesis by simp
  qed
  from run entries in_range show ?thesis by auto
qed

theorem apply_weights_product_witness:
  "map_of [(''weight'', example_weight)] ''weight'' = Some example_weight
   \<and> shape example_weight = [2, 3] \<and> stride example_weight = contiguous_strides [2, 3]
   \<and> dtype example_weight = Int8
   \<and> storage example_weight = Ints [1, 0, - 1, 2, 2, 2]
   \<and> list_all int8_range [1, 0, - 1, 2, 2, 2]
   \<and> shape example_input = [1, 2] @ [3]
   \<and> stride example_input = contiguous_strides ([1, 2] @ [3])
   \<and> dtype example_input = Int8
   \<and> storage example_input = Ints [1, 2, 3, 4, 5, 6]
   \<and> list_all int8_range [1, 2, 3, 4, 5, 6]
   \<and> 0 \<notin> set [1, 2 :: nat]
   \<and> int32_range (\<Sum>c<3. [1, 2, 3, 4, 5, 6] ! offset (stride example_input) ([0, 1] @ [c])
                          * [1, 0, - 1, 2, 2, 2] ! offset (stride example_weight) [1, c])
   \<and> (\<exists>y ys.
        apply_weights \<lparr>i8cugemm = 0\<rparr> [(''weight'', example_weight)] example_input None runtime0
          = (Inr y,
             \<lparr>current_cuda = 0, allocations = [([2, 2], Int32, CUDA 0)],
              kernel_calls = [(0, [2, 3], [2, 3], [2, 2])]\<rparr>)
        \<and> shape y = [1, 2, 2] \<and> stride y = [4, 2, 1] \<and> dtype y = Int32
        \<and> device y = device example_input
        \<and> storage y = Ints ys \<and> ys = [- 2, 12, - 2, 30]
        \<and> ys ! offset (stride y) [0, 1, 1]
            = (\<Sum>c<3. [1, 2, 3, 4, 5, 6] ! offset (stride example_input) [0, 1, c]
                       * [1, 0, - 1, 2, 2, 2] ! offset (stride example_weight) [1, c]))"
proof -
  let ?xs = "[1, 2, 3, 4, 5, 6] :: int list"
  let ?ws = "[1, 0, - 1, 2, 2, 2] :: int list"
  have w: "map_of [(''weight'', example_weight)] ''weight'' = Some example_weight"
    "shape example_weight = [2, 3]" "stride example_weight = contiguous_strides [2, 3]"
    "dtype example_weight = Int8" "storage example_weight = Ints ?ws"
    "length ?ws = 2 * 3" "list_all int8_range ?ws"
    by (simp_all add: example_weight_def int8_range_def)
  have x: "shape example_input = [1, 2] @ [3]"
    "stride example_input = contiguous_strides ([1, 2] @ [3])"
    "dtype example_input = Int8" "storage example_input = Ints ?xs"
    "length ?xs = prod_list [1, 2] * 3" "list_all int8_range ?xs"
    by (simp_all add: example_input_def int8_range_def)
  have k: "0 < (3::nat)" "0 \<notin> set [1, 2 :: nat]" "(3::nat) \<le> 131071" by simp_all
  have fits: "int32_range (\<Sum>c<3. ?xs ! offset (stride example_input) (ix @ [c])
                                     * ?ws ! offset (stride example_weight) [j, c])"
    if "valid_index [1, 2] ix" and "j < 2" for ix j
    using small_k_fits [OF that k(1) k(3) x(5) x(6) w(6) w(7)]
    by (simp only: x(2) w(3))
  from apply_weights_product [OF w x k(1) k(2) fits, of "\<lparr>i8cugemm = 0\<rparr>" runtime0]
  obtain y ys where run: "apply_weights \<lparr>i8cugemm = 0\<rparr> [(''weight'', example_weight)]
        example_input None runtime0
      = (Inr y, runtime0\<lparr>allocations := allocations runtime0
                    @ [([prod_list [1, 2], 2], Int32, device example_input)],
                 kernel_calls := kernel_calls runtime0
                    @ [(i8cugemm \<lparr>i8cugemm = 0\<rparr>, [prod_list [1, 2], 3], [2, 3],
                        [prod_list [1, 2], 2])]\<rparr>)"
    and y: "shape y = [1, 2] @ [2]" "stride y = contiguous_strides ([1, 2] @ [2])"
      "dtype y = Int32" "device y = device example_input" "storage y = Ints ys"
    and entries: "\<forall>ix j. valid_index [1, 2] ix \<and> j < 2 \<longrightarrow>
                 ys ! offset (stride y) (ix @ [j])
                   = (\<Sum>c<3. ?xs ! offset (stride example_input) (ix @ [c])
                              * ?ws ! offset (stride example_weight) [j, c])"
    by blast
  have v: "valid_index [1, 2] [0, 1]" "(1::nat) < 2" by (simp_all add: valid_index_def)
  from entries v have e: "ys ! offset (stride y) ([0, 1] @ [1])
                   = (\<Sum>c<3. ?xs ! offset (stride example_input) ([0, 1] @ [c])
                              * ?ws ! offset (stride example_weight) [1, c])"
    by blast
  from run example_run
  have "y = \<lparr>shape = [1, 2, 2], stride = [4, 2, 1], dtype = Int32, device = CUDA 0,
             requires_grad = False, attrs = [], storage = Ints [- 2, 12, - 2, 30]\<rparr>"
    by simp
  with y(5) have ys: "ys = [- 2, 12, - 2, 30]" by simp
  have dev: "device example_input = CUDA 0" by (simp add: example_input_def)
  from run y ys e w x k fits [OF v] dev show ?thesis
    by (simp add: runtime0_def)
qed

section \<open>Acquiring the shared kernel handle\<close>

text \<open>
  One after the other, every acquisition returns the same object, and the factory is
  invoked by the first one only.
\<close>

lemma Int8GEMM_call_steady:
  assumes "Int8GEMM_instance p = Some ob" and "map_of (i8cugemm_attr p) ob = Some h"
  shows "Int8GEMM_call p = Some (Inr ob, p)"
  using assms by (simp add: Int8GEMM_call_def Int8GEMM_new_def Int8GEMM_init_def)

lemma Int8GEMM_calls_steady:
  assumes "Int8GEMM_instance p = Some ob" and "map_of (i8cugemm_attr p) ob = Some h"
  shows "Int8GEMM_calls n p = Some (replicate n (Inr ob), p)"
  by (induction n) (simp_all add: Int8GEMM_call_steady [OF assms])

lemma first_call: "Int8GEMM_call process0 = Some (Inr 0, process1)"
  by (simp add: Int8GEMM_call_def Int8GEMM_new_def Int8GEMM_init_def process0_def process1_def
      object_new_def ops_I8CUGEMM_def)

lemma sequential_singleton:
  "Int8GEMM_calls (Suc n) process0 = Some (replicate (Suc n) (Inr 0), process1)
   \<and> factory_calls process1 = 1"
proof -
  have "Int8GEMM_calls n process1 = Some (replicate n (Inr 0), process1)"
    by (rule Int8GEMM_calls_steady [where h = 0]) (simp_all add: process1_def)
  then show ?thesis by (simp add: first_call) (simp add: process1_def)
qed

text \<open>
  A thread that runs alone, from a state where the lock is free, takes at most nine
  steps and ends as \<open>get_linear_method\<close> does: the statement-by-statement reading of
  the code agrees with the sequential one.
\<close>

lemma thread_alone:
  assumes "\<not> instance_lock_held p"
  shows "get_linear_method c p = Some (r, p') \<longleftrightarrow>
         run [0, 0, 0, 0, 0, 0, 0, 0, 0] ([New_outer_test], p) = ([Done r], p')"
  using assms
  by (auto simp: get_linear_method_def SQLinearMethod_init_def Int8GEMM_call_def
      Int8GEMM_new_def Int8GEMM_init_def get_i8cugemm_def object_new_def ops_I8CUGEMM_def
      split: option.splits sum.splits if_splits prod.splits)

text \<open>
  Under every schedule of any number of threads, at most one object is ever made and
  every \<open>Int8GEMM()\<close> returns it: \<open>__new__\<close> keeps its half of the promise.
\<close>

lemma one_instance_frame:
  assumes inv: "one_instance (pcs, p)" and t: "t < length pcs"
    and out: "\<not> in_cs (pcs ! t)" and out': "\<not> in_cs pc'"
    and inst: "Int8GEMM_instance p' = Int8GEMM_instance p"
    and objs: "objects_created p' = objects_created p"
    and lock: "instance_lock_held p' = instance_lock_held p"
    and ret: "\<And>ob. returned_obj pc' = Some ob \<Longrightarrow> Int8GEMM_instance p = Some ob"
  shows "one_instance (pcs[t := pc'], p')"
proof -
  let ?qs = "pcs[t := pc']"
  from inv have A: "Int8GEMM_instance p = None \<and> objects_created p = 0
           \<or> Int8GEMM_instance p = Some 0 \<and> objects_created p = 1"
    by (simp add: one_instance_def)
  from inv have M: "\<And>u u'. u < length pcs \<Longrightarrow> u' < length pcs \<Longrightarrow>
      in_cs (pcs ! u) \<Longrightarrow> in_cs (pcs ! u') \<Longrightarrow> u = u'"
    by (simp add: one_instance_def)
  from inv have L: "(\<exists>u<length pcs. in_cs (pcs ! u)) = instance_lock_held p"
    by (simp add: one_instance_def)
  from inv have D: "\<And>u. u < length pcs \<Longrightarrow> pcs ! u = New_create \<Longrightarrow>
      Int8GEMM_instance p = None"
    by (simp add: one_instance_def)
  from inv have E: "\<And>u ob. u < length pcs \<Longrightarrow> returned_obj (pcs ! u) = Some ob \<Longrightarrow>
      Int8GEMM_instance p = Some ob"
    by (simp add: one_instance_def)
  have same: "in_cs (?qs ! u) = in_cs (pcs ! u)" if "u < length pcs" for u
    using that t out out' by (cases "u = t") simp_all
  have A': "Int8GEMM_instance p' = None \<and> objects_created p' = 0
           \<or> Int8GEMM_instance p' = Some 0 \<and> objects_created p' = 1"
    using A inst objs by simp
  have M': "\<forall>u<length ?qs. \<forall>u'<length ?qs. in_cs (?qs ! u) \<and> in_cs (?qs ! u') \<longrightarrow> u = u'"
    using M same by simp
  have "(\<exists>u<length pcs. in_cs (?qs ! u)) = (\<exists>u<length pcs. in_cs (pcs ! u))"
    using same by blast
  with L lock have L': "(\<exists>u<length ?qs. in_cs (?qs ! u)) = instance_lock_held p'"
    by simp
  have D': "\<forall>u<length ?qs. ?qs ! u = New_create \<longrightarrow> Int8GEMM_instance p' = None"
  proof (intro allI impI)
    fix u assume u: "u < length ?qs" and c: "?qs ! u = New_create"
    show "Int8GEMM_instance p' = None"
    proof (cases "u = t")
      case True
      with u c have "pc' = New_create" by simp
      with out' show ?thesis by (simp add: in_cs_def)
    next
      case False
      with u c D [of u] inst show ?thesis by simp
    qed
  qed
  have E': "\<forall>u<length ?qs. \<forall>ob. returned_obj (?qs ! u) = Some ob \<longrightarrow>
              Int8GEMM_instance p' = Some ob"
  proof (intro allI impI)
    fix u ob assume u: "u < length ?qs" and r: "returned_obj (?qs ! u) = Some ob"
    show "Int8GEMM_instance p' = Some ob"
    proof (cases "u = t")
      case True
      with u r ret [of ob] inst show ?thesis by simp
    next
      case False
      with u r E [of u ob] inst show ?thesis by simp
    qed
  qed
  from A' M' L' D' E' show ?thesis
    unfolding one_instance_def by simp
qed

lemma one_instance_step:
  assumes inv: "one_instance (pcs, p)" and t: "t < length pcs"
    and st: "step (pcs ! t) p = Some (pc', p')"
  shows "one_instance (pcs[t := pc'], p')"
proof (cases "pcs ! t")
  case New_outer_test
  with st have "\<not> in_cs (pcs ! t)" "\<not> in_cs pc'" "p' = p" "returned_obj pc' = None"
    by (auto simp: in_cs_def split: if_splits)
  with inv t show ?thesis by (intro one_instance_frame [of pcs p]) simp_all
next
  case New_lock
  with inv t st show ?thesis
    by (auto simp: one_instance_def in_cs_def nth_list_update split: if_splits)
next
  case New_inner_test
  with inv t st show ?thesis
    by (auto simp: one_instance_def in_cs_def nth_list_update split: if_splits)
next
  case New_create
  with inv t st show ?thesis
    by (auto simp: one_instance_def in_cs_def nth_list_update object_new_def split: if_splits)
next
  case New_unlock
  with inv t st show ?thesis
    by (auto simp: one_instance_def in_cs_def nth_list_update split: if_splits)
next
  case New_return
  with st have "\<not> in_cs (pcs ! t)" "\<not> in_cs pc'" "p' = p"
    and "\<And>ob. returned_obj pc' = Some ob \<Longrightarrow> Int8GEMM_instance p = Some ob"
    by (auto simp: in_cs_def split: option.splits)
  with inv t show ?thesis by (intro one_instance_frame [of pcs p]) simp_all
next
  case (Init_test self)
  from inv t Init_test have here: "Int8GEMM_instance p = Some self"
    by (simp add: one_instance_def)
  from Init_test st have "\<not> in_cs (pcs ! t)" "\<not> in_cs pc'" "p' = p"
    and "\<And>ob. returned_obj pc' = Some ob \<Longrightarrow> ob = self"
    by (auto simp: in_cs_def split: if_splits)
  with inv t here show ?thesis by (intro one_instance_frame [of pcs p]) simp_all
next
  case (Init_assign self)
  from inv t Init_assign have here: "Int8GEMM_instance p = Some self"
    by (simp add: one_instance_def)
  from Init_assign st have "\<not> in_cs (pcs ! t)" "\<not> in_cs pc'"
    "Int8GEMM_instance p' = Int8GEMM_instance p" "objects_created p' = objects_created p"
    "instance_lock_held p' = instance_lock_held p"
    and "\<And>ob. returned_obj pc' = Some ob \<Longrightarrow> ob = self"
    by (auto simp: in_cs_def ops_I8CUGEMM_def)
  with inv t here show ?thesis by (intro one_instance_frame [of pcs p]) simp_all
next
  case (Get_handle self)
  with st have "\<not> in_cs (pcs ! t)" "\<not> in_cs pc'" "p' = p" "returned_obj pc' = None"
    by (auto simp: in_cs_def split: sum.splits)
  with inv t show ?thesis by (intro one_instance_frame [of pcs p]) simp_all
next
  case (Done r)
  with st show ?thesis by simp
qed

lemma one_instance_run: "one_instance c \<Longrightarrow> one_instance (run sched c)"
proof (induction sched arbitrary: c)
  case Nil
  then show ?case by simp
next
  case (Cons t sched)
  obtain pcs p where c: "c = (pcs, p)" by (cases c)
  show ?case
  proof (cases "t < length pcs")
    case False
    with Cons c show ?thesis by simp
  next
    case True
    show ?thesis
    proof (cases "step (pcs ! t) p")
      case None
      with Cons c True show ?thesis by simp
    next
      case (Some r)
      obtain pc' p' where r: "r = (pc', p')" by (cases r)
      from Cons.prems c True Some r have "one_instance (pcs[t := pc'], p')"
        by (simp add: one_instance_step)
      from Cons.IH [OF this] c True Some r show ?thesis by simp
    qed
  qed
qed

lemma one_instance_start: "one_instance (replicate n New_outer_test, process0)"
  by (simp add: one_instance_def in_cs_def process0_def)

lemma length_run: "length (fst (run sched c)) = length (fst c)"
proof (induction sched arbitrary: c)
  case Nil
  then show ?case by simp
next
  case (Cons t sched)
  obtain pcs p where c: "c = (pcs, p)" by (cases c)
  with Cons show ?case by (simp split: option.splits)
qed

lemma concurrent_one_instance:
  assumes "run sched (replicate n New_outer_test, process0) = (pcs, p)"
  shows "objects_created p \<le> 1"
    and "t < length pcs \<Longrightarrow> returned_obj (pcs ! t) = Some ob \<Longrightarrow> ob = 0"
proof -
  from one_instance_run [OF one_instance_start, of sched n] assms
  have inv: "one_instance (pcs, p)" by simp
  then show "objects_created p \<le> 1" by (auto simp: one_instance_def)
  from inv show "t < length pcs \<Longrightarrow> returned_obj (pcs ! t) = Some ob \<Longrightarrow> ob = 0"
    by (auto simp: one_instance_def)
qed

text \<open>
  C2. Every acquisition of the shared kernel handle, also from several threads at once,
  returns the identical instance, and the native factory \<open>ops.I8CUGEMM\<close> is invoked
  exactly once per process. The code does not keep the second half: \<open>__new__\<close> makes
  the instance under the lock, but \<open>__init__\<close> tests \<open>hasattr(self, "i8cugemm")\<close> and
  assigns outside it. Two threads that use the handle for the first time, the second
  testing before the first has assigned, both invoke the factory: it is invoked twice,
  and the two operators are bound to different kernel handles.
\<close>

theorem concurrent_first_use_invokes_factory_twice:
  "run [0, 0, 0, 0, 0, 0, 0, 1, 1, 1, 0, 0, 1, 1] ([New_outer_test, New_outer_test], process0)
     = ([Done (Inr \<lparr>i8cugemm = 0\<rparr>), Done (Inr \<lparr>i8cugemm = 1\<rparr>)],
        \<lparr>Int8GEMM_instance = Some 0, instance_lock_held = False, objects_created = 1,
         i8cugemm_attr = [(0, 1)], factory_calls = 2\<rparr>)"
  by (simp add: process0_def object_new_def ops_I8CUGEMM_def get_i8cugemm_def)

end
